theory Spec2Isabelle
  imports Complex_Main "HOL-Library.Word"
begin

unbundle bit_operations_syntax

section \<open>JavaScript values\<close>

text \<open>
  The handlers of \<^verbatim>\<open>server.js\<close> read query parameters, the JSON request body, the
  cookie session and the JSON answers of the provider. All of these are JavaScript
  values. A number is a double: a finite value, given by the rational it stands for, an
  infinity, or \<^verbatim>\<open>NaN\<close>. \<open>Fin q\<close> is meant for the rationals \<open>q\<close> that are doubles (a JSON numeral
  is read as the double nearest to it, \<open>to_double\<close> below, and every operation returns a
  double). The two zeros are one value here; nothing in the handlers tells them apart.
\<close>

datatype jsnum = Fin rat | PosInf | NegInf | NaN

datatype jsval =
    JUndefined
  | JNull
  | JBool bool
  | JNum jsnum
  | JStr string
  | JArr "jsval list"
  | JObj "(string \<times> jsval) list"

text \<open>\<^verbatim>\<open>!v\<close> is \<open>\<not> truthy v\<close>: the falsy values are undefined, null, false, 0, NaN and the
  empty string.\<close>

fun truthy :: "jsval \<Rightarrow> bool" where
  "truthy JUndefined = False"
| "truthy JNull = False"
| "truthy (JBool b) = b"
| "truthy (JNum (Fin q)) = (q \<noteq> 0)"
| "truthy (JNum PosInf) = True"
| "truthy (JNum NegInf) = True"
| "truthy (JNum NaN) = False"
| "truthy (JStr s) = (s \<noteq> [])"
| "truthy (JArr xs) = True"
| "truthy (JObj kvs) = True"

text \<open>
  \<^verbatim>\<open>a === b\<close> for two values that were parsed separately (one from the query string, the
  other from the session cookie): primitives are compared by type and value, NaN equals
  nothing, and two arrays or objects are distinct references, hence never equal.
\<close>

fun strict_eq :: "jsval \<Rightarrow> jsval \<Rightarrow> bool" where
  "strict_eq JUndefined JUndefined = True"
| "strict_eq JNull JNull = True"
| "strict_eq (JBool a) (JBool b) = (a = b)"
| "strict_eq (JNum (Fin a)) (JNum (Fin b)) = (a = b)"
| "strict_eq (JNum PosInf) (JNum PosInf) = True"
| "strict_eq (JNum NegInf) (JNum NegInf) = True"
| "strict_eq (JStr a) (JStr b) = (a = b)"
| "strict_eq _ _ = False"

text \<open>\<^verbatim>\<open>v.k\<close>: reading a property of undefined or null throws a TypeError; every other value
  answers, with undefined for a key it does not have. A parsed object has one entry per key.\<close>

fun nullish :: "jsval \<Rightarrow> bool" where
  "nullish JUndefined = True"
| "nullish JNull = True"
| "nullish _ = False"

fun get_prop :: "jsval \<Rightarrow> string \<Rightarrow> jsval" where
  "get_prop (JObj kvs) k = (case map_of kvs k of None \<Rightarrow> JUndefined | Some v \<Rightarrow> v)"
| "get_prop _ k = JUndefined"

subsection \<open>Double arithmetic\<close>

text \<open>\<open>ipow b k\<close> is \<open>b\<close> to the integer power \<open>k\<close>; \<open>ndigits b n\<close> is the number of digits of
  \<open>n\<close> in base \<open>b\<close>; \<open>floor_log b a\<close> is the exponent \<open>e\<close> with \<open>b ^ e \<le> a < b ^ (e + 1)\<close>, for a
  positive \<open>a\<close>.\<close>

definition ipow :: "rat \<Rightarrow> int \<Rightarrow> rat" where
  "ipow b k = (if 0 \<le> k then b ^ nat k else 1 / b ^ nat (- k))"

fun ndigits :: "nat \<Rightarrow> nat \<Rightarrow> nat" where
  "ndigits b n = (if n = 0 \<or> b < 2 then 0 else Suc (ndigits b (n div b)))"

declare ndigits.simps [simp del]

definition floor_log :: "nat \<Rightarrow> rat \<Rightarrow> int" where
  "floor_log b a =
     (let (n, d) = quotient_of a;
          e0 = int (ndigits b (nat n)) - int (ndigits b (nat d))
      in if ipow (of_nat b) e0 \<le> a then e0 else e0 - 1)"

definition round_half_even :: "rat \<Rightarrow> int" where
  "round_half_even m =
     (let f = \<lfloor>m\<rfloor>; r = m - of_int f
      in if r < 1 / 2 then f else if 1 / 2 < r then f + 1 else if even f then f else f + 1)"

text \<open>
  The double nearest to a rational (IEEE 754 binary64, ties to the even significand), which
  is what every arithmetic operation of JavaScript returns for its exact result: 53 bits
  of significand, the smallest exponent -1022 (below it the spacing stays \<open>2 ^ - 1074\<close>),
  and an infinity from \<open>2 ^ 1024\<close> on.
\<close>

definition to_double :: "rat \<Rightarrow> jsnum" where
  "to_double q =
     (if q = 0 then Fin 0
      else
        let a = \<bar>q\<bar>;
            e = max (floor_log 2 a) (- 1022);
            u = ipow 2 (e - 52);
            v = of_int (round_half_even (a / u)) * u
        in if ipow 2 1024 \<le> v then (if q < 0 then NegInf else PosInf)
           else Fin (sgn q * v))"

text \<open>\<^verbatim>\<open>a * b\<close> and \<^verbatim>\<open>a + b\<close> on numbers.\<close>

fun num_times :: "jsnum \<Rightarrow> jsnum \<Rightarrow> jsnum" where
  "num_times NaN _ = NaN"
| "num_times _ NaN = NaN"
| "num_times (Fin a) (Fin b) = to_double (a * b)"
| "num_times (Fin a) PosInf = (if a = 0 then NaN else if 0 < a then PosInf else NegInf)"
| "num_times (Fin a) NegInf = (if a = 0 then NaN else if 0 < a then NegInf else PosInf)"
| "num_times PosInf (Fin b) = (if b = 0 then NaN else if 0 < b then PosInf else NegInf)"
| "num_times NegInf (Fin b) = (if b = 0 then NaN else if 0 < b then NegInf else PosInf)"
| "num_times PosInf PosInf = PosInf"
| "num_times PosInf NegInf = NegInf"
| "num_times NegInf PosInf = NegInf"
| "num_times NegInf NegInf = PosInf"

fun num_plus :: "jsnum \<Rightarrow> jsnum \<Rightarrow> jsnum" where
  "num_plus NaN _ = NaN"
| "num_plus _ NaN = NaN"
| "num_plus (Fin a) (Fin b) = to_double (a + b)"
| "num_plus (Fin a) PosInf = PosInf"
| "num_plus (Fin a) NegInf = NegInf"
| "num_plus PosInf (Fin b) = PosInf"
| "num_plus NegInf (Fin b) = NegInf"
| "num_plus PosInf PosInf = PosInf"
| "num_plus PosInf NegInf = NaN"
| "num_plus NegInf PosInf = NaN"
| "num_plus NegInf NegInf = NegInf"

subsection \<open>Conversion to strings\<close>

definition digit_char :: "nat \<Rightarrow> char" where
  "digit_char d = ''0123456789'' ! (d mod 10)"

fun show_nat :: "nat \<Rightarrow> string" where
  "show_nat n = (if n < 10 then [digit_char n] else show_nat (n div 10) @ [digit_char (n mod 10)])"

declare show_nat.simps [simp del]

text \<open>
  \<^verbatim>\<open>String(x)\<close> for a number (ECMAScript Number::toString): the shortest decimal \<open>s * 10 ^ e\<close>
  that rounds to the double \<open>x\<close>, the nearest one if several of that length do, written
  plainly when its integer part has at most 21 digits and at most six zeros follow the
  point, with an exponent otherwise. At most 17 digits are ever needed.
\<close>

definition digit_candidate :: "rat \<Rightarrow> int \<Rightarrow> nat \<Rightarrow> (int \<times> int) option" where
  "digit_candidate x n k =
     (let p = ipow 10 (n - int k);
          lo = \<lfloor>x / p\<rfloor>; hi = lo + 1;
          oklo = (to_double (of_int lo * p) = to_double x);
          okhi = (to_double (of_int hi * p) = to_double x);
          dlo = x - of_int lo * p; dhi = of_int hi * p - x
      in if oklo \<and> okhi
         then Some (if dlo < dhi then lo else if dhi < dlo then hi else if even lo then lo else hi,
                    n - int k)
         else if oklo then Some (lo, n - int k)
         else if okhi then Some (hi, n - int k)
         else None)"

definition shortest_digits :: "rat \<Rightarrow> int \<times> int" where
  "shortest_digits x =
     (case List.map_filter (digit_candidate x (floor_log 10 x + 1)) [1..<18] of
        [] \<Rightarrow> (\<lfloor>x\<rfloor>, 0)
      | c # _ \<Rightarrow> c)"

fun strip_zeros :: "nat \<Rightarrow> int \<Rightarrow> nat \<times> int" where
  "strip_zeros s e = (if s \<noteq> 0 \<and> s mod 10 = 0 then strip_zeros (s div 10) (e + 1) else (s, e))"

declare strip_zeros.simps [simp del]

definition positive_to_string :: "rat \<Rightarrow> string" where
  "positive_to_string x =
     (let (c, e0) = shortest_digits x;
          (s, e) = strip_zeros (nat c) e0;
          ds = show_nat s;
          k = int (length ds);
          n = e + k
      in if k \<le> n \<and> n \<le> 21 then ds @ replicate (nat (n - k)) CHR ''0''
         else if 0 < n \<and> n \<le> 21 then take (nat n) ds @ ''.'' @ drop (nat n) ds
         else if - 6 < n \<and> n \<le> 0 then ''0.'' @ replicate (nat (- n)) CHR ''0'' @ ds
         else
           let ex = (if n - 1 < 0 then ''-'' else ''+'') @ show_nat (nat \<bar>n - 1\<bar>)
           in if k = 1 then ds @ ''e'' @ ex
              else take 1 ds @ ''.'' @ drop 1 ds @ ''e'' @ ex)"

fun number_to_string :: "jsnum \<Rightarrow> string" where
  "number_to_string NaN = ''NaN''"
| "number_to_string PosInf = ''Infinity''"
| "number_to_string NegInf = ''-Infinity''"
| "number_to_string (Fin q) =
     (if q = 0 then ''0''
      else if q < 0 then ''-'' @ positive_to_string (- q)
      else positive_to_string q)"

fun intersperse :: "'a list \<Rightarrow> 'a list list \<Rightarrow> 'a list" where
  "intersperse sep [] = []"
| "intersperse sep [x] = x"
| "intersperse sep (x # y # ys) = x @ sep @ intersperse sep (y # ys)"

text \<open>\<^verbatim>\<open>String(v)\<close>, as template literals and \<^verbatim>\<open>URLSearchParams\<close> apply it. An array is its
  elements joined by commas, undefined and null elements giving the empty string.\<close>

fun js_to_string :: "jsval \<Rightarrow> string" where
  "js_to_string JUndefined = ''undefined''"
| "js_to_string JNull = ''null''"
| "js_to_string (JBool b) = (if b then ''true'' else ''false'')"
| "js_to_string (JNum x) = number_to_string x"
| "js_to_string (JStr s) = s"
| "js_to_string (JArr xs) =
     intersperse '','' (map (\<lambda>x. if nullish x then [] else js_to_string x) xs)"
| "js_to_string (JObj kvs) = ''[object Object]''"

section \<open>Encodings of the Node.js runtime\<close>

text \<open>
  A \<^verbatim>\<open>Buffer\<close> is a list of bytes. A string is the list of the bytes of its UTF-8
  encoding, which is what \<^verbatim>\<open>Buffer.from(s)\<close>, \<^verbatim>\<open>hash.update(s)\<close> and the percent-encoders
  read.
\<close>

type_synonym byte = "8 word"

definition utf8 :: "string \<Rightarrow> byte list" where
  "utf8 s = map (\<lambda>c. of_nat (of_char c)) s"

subsection \<open>Base64\<close>

definition b64_std :: string where
  "b64_std = ''ABCDEFGHIJKLMNOPQRSTUVWXYZabcdefghijklmnopqrstuvwxyz0123456789+/''"

definition b64_url :: string where
  "b64_url = ''ABCDEFGHIJKLMNOPQRSTUVWXYZabcdefghijklmnopqrstuvwxyz0123456789-_''"

text \<open>Three bytes give four characters; a rest of one or two bytes gives two or three
  characters, filled up with \<^verbatim>\<open>=\<close> when \<open>pad\<close> is set.\<close>

fun b64 :: "string \<Rightarrow> bool \<Rightarrow> byte list \<Rightarrow> string" where
  "b64 al pad (a # b # c # rest) =
     (let n = unat a * 65536 + unat b * 256 + unat c
      in [al ! (n div 262144 mod 64), al ! (n div 4096 mod 64), al ! (n div 64 mod 64),
          al ! (n mod 64)]) @ b64 al pad rest"
| "b64 al pad [a, b] =
     (let n = unat a * 65536 + unat b * 256
      in [al ! (n div 262144 mod 64), al ! (n div 4096 mod 64), al ! (n div 64 mod 64)])
     @ (if pad then ''='' else [])"
| "b64 al pad [a] =
     (let n = unat a * 65536
      in [al ! (n div 262144 mod 64), al ! (n div 4096 mod 64)])
     @ (if pad then ''=='' else [])"
| "b64 al pad [] = []"

text \<open>\<^verbatim>\<open>buf.toString('base64')\<close> and \<^verbatim>\<open>buf.toString('base64url')\<close>.\<close>

definition base64 :: "byte list \<Rightarrow> string" where
  "base64 bs = b64 b64_std True bs"

definition base64url :: "byte list \<Rightarrow> string" where
  "base64url bs = b64 b64_url False bs"

subsection \<open>Percent-encoding\<close>

definition hex_char :: "nat \<Rightarrow> char" where
  "hex_char d = ''0123456789ABCDEF'' ! (d mod 16)"

definition pct_encode :: "char \<Rightarrow> string" where
  "pct_encode c = [CHR ''%'', hex_char (of_char c div 16), hex_char (of_char c mod 16)]"

definition alphanum :: "char set" where
  "alphanum = set ''ABCDEFGHIJKLMNOPQRSTUVWXYZabcdefghijklmnopqrstuvwxyz0123456789''"

text \<open>\<^verbatim>\<open>encodeURIComponent\<close> keeps letters, digits and \<^verbatim>\<open>- _ . ! ~ * ' ( )\<close>, and writes
  every other byte of the UTF-8 encoding as \<^verbatim>\<open>%XX\<close>.\<close>

definition uri_unreserved :: "char \<Rightarrow> bool" where
  "uri_unreserved c \<longleftrightarrow> c \<in> alphanum \<or> c \<in> set ''-_.!~*()'' \<or> c = CHR 0x27"

definition encodeURIComponent :: "string \<Rightarrow> string" where
  "encodeURIComponent s = concat (map (\<lambda>c. if uri_unreserved c then [c] else pct_encode c) s)"

text \<open>The serializer of \<^verbatim>\<open>url.searchParams\<close> (application/x-www-form-urlencoded): letters,
  digits and \<^verbatim>\<open>* - . _\<close> are kept, a space becomes \<^verbatim>\<open>+\<close>, every other byte is \<^verbatim>\<open>%XX\<close>.\<close>

definition form_encode :: "string \<Rightarrow> string" where
  "form_encode s = concat (map (\<lambda>c.
     if c \<in> alphanum \<or> c \<in> set ''*-._'' then [c]
     else if c = CHR '' '' then ''+''
     else pct_encode c) s)"

subsection \<open>SHA-256\<close>

text \<open>The digest that \<^verbatim>\<open>crypto.createHash('sha256')\<close> computes (FIPS 180-4), on 32-bit words.\<close>

type_synonym u32 = "32 word"

definition rotr :: "nat \<Rightarrow> u32 \<Rightarrow> u32" where
  "rotr n x = drop_bit n x OR push_bit (32 - n) x"

definition Ch :: "u32 \<Rightarrow> u32 \<Rightarrow> u32 \<Rightarrow> u32" where
  "Ch x y z = (x AND y) XOR (NOT x AND z)"

definition Maj :: "u32 \<Rightarrow> u32 \<Rightarrow> u32 \<Rightarrow> u32" where
  "Maj x y z = (x AND y) XOR (x AND z) XOR (y AND z)"

definition bsig0 :: "u32 \<Rightarrow> u32" where
  "bsig0 x = rotr 2 x XOR rotr 13 x XOR rotr 22 x"

definition bsig1 :: "u32 \<Rightarrow> u32" where
  "bsig1 x = rotr 6 x XOR rotr 11 x XOR rotr 25 x"

definition ssig0 :: "u32 \<Rightarrow> u32" where
  "ssig0 x = rotr 7 x XOR rotr 18 x XOR drop_bit 3 x"

definition ssig1 :: "u32 \<Rightarrow> u32" where
  "ssig1 x = rotr 17 x XOR rotr 19 x XOR drop_bit 10 x"

text \<open>The round constants: the first 32 bits of the fractional parts of the cube roots of
  the first 64 primes, in decimal.\<close>

definition sha256_K :: "u32 list" where
  "sha256_K = [
    1116352408, 1899447441, 3049323471, 3921009573, 961987163, 1508970993,
    2453635748, 2870763221, 3624381080, 310598401, 607225278, 1426881987,
    1925078388, 2162078206, 2614888103, 3248222580, 3835390401, 4022224774,
    264347078, 604807628, 770255983, 1249150122, 1555081692, 1996064986,
    2554220882, 2821834349, 2952996808, 3210313671, 3336571891, 3584528711,
    113926993, 338241895, 666307205, 773529912, 1294757372, 1396182291,
    1695183700, 1986661051, 2177026350, 2456956037, 2730485921, 2820302411,
    3259730800, 3345764771, 3516065817, 3600352804, 4094571909, 275423344,
    430227734, 506948616, 659060556, 883997877, 958139571, 1322822218,
    1537002063, 1747873779, 1955562222, 2024104815, 2227730452, 2361852424,
    2428436474, 2756734187, 3204031479, 3329325298]"

definition sha256_H0 :: "u32 list" where
  "sha256_H0 = [0x6a09e667, 0xbb67ae85, 0x3c6ef372, 0xa54ff53a,
                0x510e527f, 0x9b05688c, 0x1f83d9ab, 0x5be0cd19]"

text \<open>The \<open>k\<close> bytes of \<open>n\<close>, most significant first.\<close>

definition be_bytes :: "nat \<Rightarrow> nat \<Rightarrow> byte list" where
  "be_bytes k n = map (\<lambda>i. of_nat (n div 256 ^ (k - 1 - i))) [0..<k]"

definition sha256_pad :: "byte list \<Rightarrow> byte list" where
  "sha256_pad m = m @ [0x80] @ replicate ((119 - length m mod 64) mod 64) 0
                    @ be_bytes 8 (8 * length m)"

fun be_words :: "byte list \<Rightarrow> u32 list" where
  "be_words (a # b # c # d # rest) =
     of_nat (unat a * 16777216 + unat b * 65536 + unat c * 256 + unat d) # be_words rest"
| "be_words _ = []"

definition next_w :: "u32 list \<Rightarrow> u32" where
  "next_w w = (let n = length w
     in ssig1 (w ! (n - 2)) + w ! (n - 7) + ssig0 (w ! (n - 15)) + w ! (n - 16))"

fun schedule :: "nat \<Rightarrow> u32 list \<Rightarrow> u32 list" where
  "schedule 0 w = w"
| "schedule (Suc k) w = schedule k (w @ [next_w w])"

fun sha256_round :: "u32 list \<Rightarrow> u32 \<times> u32 \<Rightarrow> u32 list" where
  "sha256_round [a, b, c, d, e, f, g, h] (k, w) =
     (let t1 = h + bsig1 e + Ch e f g + k + w; t2 = bsig0 a + Maj a b c
      in [t1 + t2, a, b, c, d + t1, e, f, g])"
| "sha256_round s _ = s"

definition compress :: "u32 list \<Rightarrow> byte list \<Rightarrow> u32 list" where
  "compress h block =
     map2 (+) h (foldl sha256_round h (zip sha256_K (schedule 48 (be_words block))))"

fun blocks :: "nat \<Rightarrow> byte list \<Rightarrow> byte list list" where
  "blocks 0 m = []"
| "blocks (Suc k) m = take 64 m # blocks k (drop 64 m)"

definition sha256 :: "byte list \<Rightarrow> byte list" where
  "sha256 m = (let p = sha256_pad m
     in concat (map (\<lambda>w. be_bytes 4 (unat w))
          (foldl compress sha256_H0 (blocks (length p div 64) p))))"

section \<open>The server\<close>

subsection \<open>Configuration, requests, sessions and upstream calls\<close>

text \<open>The variables that \<^verbatim>\<open>server.js\<close> takes from \<^verbatim>\<open>process.env\<close>. A variable that is not set
  is undefined, and reads \<^verbatim>\<open>undefined\<close> wherever it is turned into a string.\<close>

record env =
  CANVA_CLIENT_ID :: "string option"
  CANVA_CLIENT_SECRET :: "string option"
  BASE_URL :: "string option"
  REDIRECT_URI :: "string option"

definition env_str :: "string option \<Rightarrow> string" where
  "env_str v = (case v of None \<Rightarrow> ''undefined'' | Some s \<Rightarrow> s)"

text \<open>An object read by key: \<^verbatim>\<open>req.query\<close> and \<^verbatim>\<open>req.session\<close>. A key that is absent reads
  as undefined.\<close>

type_synonym jsobject = "string \<rightharpoonup> jsval"

definition field :: "jsobject \<Rightarrow> string \<Rightarrow> jsval" where
  "field obj k = (case obj k of None \<Rightarrow> JUndefined | Some v \<Rightarrow> v)"

record request =
  query :: jsobject
  param_id :: string
  body :: jsval
  session :: jsobject

text \<open>What a handler sends: \<^verbatim>\<open>res.status(n).send(text)\<close>, \<^verbatim>\<open>res.status(n).json(v)\<close>,
  \<^verbatim>\<open>res.redirect(url)\<close>, each with its status; without \<^verbatim>\<open>status(n)\<close> Express sends 200, and
  302 for a redirect. \<open>Uncaught\<close> is an exception that leaves the handler before any answer
  is sent.\<close>

datatype http_response =
    Send nat string
  | SendJson nat jsval
  | Redirect nat string
  | Uncaught

text \<open>A call of \<^verbatim>\<open>fetch\<close>. The payload is absent, a \<^verbatim>\<open>URLSearchParams\<close> list of pairs, or the
  text that \<^verbatim>\<open>JSON.stringify\<close> writes for a value.\<close>

datatype payload = NoBody | FormBody "(string \<times> string) list" | JsonText jsval

record fetch_request =
  url :: string
  http_method :: string
  headers :: "(string \<times> string) list"
  payload :: payload

text \<open>What the awaited \<^verbatim>\<open>fetch\<close> and \<^verbatim>\<open>response.json()\<close> give: the promise of \<^verbatim>\<open>fetch\<close> is
  rejected (no HTTP answer), or an answer arrives with its status and its body, \<open>None\<close>
  when the body is not JSON text and \<^verbatim>\<open>json()\<close> is rejected.\<close>

datatype fetch_outcome = NetworkError | Responded nat "jsval option"

text \<open>\<^verbatim>\<open>response.ok\<close> of the fetch API.\<close>

definition status_ok :: "nat \<Rightarrow> bool" where
  "status_ok st \<longleftrightarrow> 200 \<le> st \<and> st \<le> 299"

text \<open>The surroundings of a request: the clock \<^verbatim>\<open>Date.now()\<close>, in whole milliseconds, the
  provider behind \<^verbatim>\<open>fetch\<close>, and the conversion of a string to a number (ECMAScript
  StringToNumber), which is taken as it is given.\<close>

record runtime =
  now :: int
  fetch :: "fetch_request \<Rightarrow> fetch_outcome"
  string_to_number :: "string \<Rightarrow> jsnum"

text \<open>The bytes that the random source will deliver, in order; \<^verbatim>\<open>crypto.randomBytes(n)\<close> takes
  the next \<open>n\<close> of them.\<close>

type_synonym entropy = "nat \<Rightarrow> byte"

definition randomBytes :: "nat \<Rightarrow> entropy \<Rightarrow> byte list \<times> entropy" where
  "randomBytes n src = (map src [0..<n], \<lambda>i. src (i + n))"

text \<open>The result of a handler: the answer, the session as the handler leaves it, and the
  upstream calls it made, in order.\<close>

record result =
  response :: http_response
  session_out :: jsobject
  calls :: "fetch_request list"

subsection \<open>Arithmetic on values\<close>

text \<open>\<^verbatim>\<open>Date.now() + tokenJson.expires_in * 1000\<close> converts its operand to a number first:
  undefined is NaN, null is 0, a string, an array or an object goes through its string.\<close>

fun to_number :: "(string \<Rightarrow> jsnum) \<Rightarrow> jsval \<Rightarrow> jsnum" where
  "to_number cv JUndefined = NaN"
| "to_number cv JNull = Fin 0"
| "to_number cv (JBool b) = Fin (if b then 1 else 0)"
| "to_number cv (JNum n) = n"
| "to_number cv (JStr s) = cv s"
| "to_number cv (JArr xs) = cv (js_to_string (JArr xs))"
| "to_number cv (JObj kvs) = cv (js_to_string (JObj kvs))"

subsection \<open>GET /oauth/login\<close>

definition authorize_endpoint :: string where
  "authorize_endpoint = ''https://www.canva.com/api/oauth/authorize''"

definition oauth_login :: "env \<Rightarrow> entropy \<Rightarrow> request \<Rightarrow> result \<times> entropy" where
  "oauth_login cfg src req =
    (let (sb, src1) = randomBytes 24 src;
         state = base64url sb;
         (vb, src2) = randomBytes 96 src1;
         codeVerifier = base64url vb;
         codeChallenge = base64url (sha256 (utf8 codeVerifier));
         sess = (session req)(''oauthState'' \<mapsto> JStr state, ''codeVerifier'' \<mapsto> JStr codeVerifier);
         scopes = encodeURIComponent ''design:meta:read'';
         authorizeUrl =
           authorize_endpoint
           @ ''?response_type=code''
           @ ''&client_id='' @ encodeURIComponent (env_str (CANVA_CLIENT_ID cfg))
           @ ''&redirect_uri='' @ encodeURIComponent (env_str (REDIRECT_URI cfg))
           @ ''&scope='' @ scopes
           @ ''&code_challenge='' @ codeChallenge
           @ ''&code_challenge_method=s256''
           @ ''&state='' @ state
     in (\<lparr>response = Redirect 302 authorizeUrl, session_out = sess, calls = []\<rparr>, src2))"

subsection \<open>GET /oauth/callback\<close>

text \<open>The POST that exchanges the code. \<^verbatim>\<open>URLSearchParams\<close> turns every value into a
  string.\<close>

definition token_request :: "env \<Rightarrow> jsval \<Rightarrow> jsval \<Rightarrow> fetch_request" where
  "token_request cfg code codeVerifier =
    \<lparr>url = ''https://api.canva.com/rest/v1/oauth/token'',
     http_method = ''POST'',
     headers =
       [(''Authorization'',
         ''Basic '' @ base64 (utf8 (env_str (CANVA_CLIENT_ID cfg) @ '':''
                                     @ env_str (CANVA_CLIENT_SECRET cfg)))),
        (''Content-Type'', ''application/x-www-form-urlencoded'')],
     payload = FormBody
       [(''grant_type'', ''authorization_code''),
        (''code'', js_to_string code),
        (''code_verifier'', js_to_string codeVerifier),
        (''redirect_uri'', env_str (REDIRECT_URI cfg))]\<rparr>"

text \<open>The guard comes first. Everything after it runs inside \<^verbatim>\<open>try\<close>: a rejected
  \<^verbatim>\<open>fetch\<close>, a body that \<^verbatim>\<open>json()\<close> cannot parse, and the TypeError of reading a property of
  \<^verbatim>\<open>null\<close> all end in the \<^verbatim>\<open>catch\<close> branch. The body is parsed before \<^verbatim>\<open>tokenRes.ok\<close> is
  tested.\<close>

definition oauth_callback :: "env \<Rightarrow> runtime \<Rightarrow> request \<Rightarrow> result" where
  "oauth_callback cfg rt req =
    (let code = field (query req) ''code'';
         state = field (query req) ''state''
     in if \<not> truthy code \<or> \<not> truthy state
           \<or> \<not> strict_eq state (field (session req) ''oauthState'')
        then \<lparr>response = Send 400 ''Invalid OAuth state or missing code'',
              session_out = session req, calls = []\<rparr>
        else
          let call = token_request cfg code (field (session req) ''codeVerifier'')
          in (case fetch rt call of
                NetworkError \<Rightarrow>
                  \<lparr>response = Send 500 ''OAuth callback error'',
                   session_out = session req, calls = [call]\<rparr>
              | Responded st None \<Rightarrow>
                  \<lparr>response = Send 500 ''OAuth callback error'',
                   session_out = session req, calls = [call]\<rparr>
              | Responded st (Some tokenJson) \<Rightarrow>
                  if \<not> status_ok st
                  then \<lparr>response = Send 400 ''Failed to exchange code for token'',
                        session_out = session req, calls = [call]\<rparr>
                  else if nullish tokenJson
                  then \<lparr>response = Send 500 ''OAuth callback error'',
                        session_out = session req, calls = [call]\<rparr>
                  else
                    \<lparr>response = Send 200
                       ''Authorization complete! You can close this tab and return to ChatGPT.'',
                     session_out = (session req)
                       (''accessToken'' \<mapsto> get_prop tokenJson ''access_token'',
                        ''refreshToken'' \<mapsto> get_prop tokenJson ''refresh_token'',
                        ''expiresAt'' \<mapsto> JNum (num_plus (Fin (of_int (now rt)))
                           (num_times (to_number (string_to_number rt)
                                         (get_prop tokenJson ''expires_in'')) (Fin 1000)))),
                     calls = [call]\<rparr>))"

subsection \<open>The gateway and the three proxy routes\<close>

definition not_authenticated :: "env \<Rightarrow> http_response" where
  "not_authenticated cfg =
     SendJson 401
       (JObj [(''error'', JStr ''Not authenticated''),
              (''authUrl'', JStr (env_str (BASE_URL cfg) @ ''/oauth/login''))])"

definition requireAccessToken :: "env \<Rightarrow> (request \<Rightarrow> result) \<Rightarrow> request \<Rightarrow> result" where
  "requireAccessToken cfg next req =
    (if \<not> truthy (field (session req) ''accessToken'')
     then \<lparr>response = not_authenticated cfg, session_out = session req, calls = []\<rparr>
     else next req)"

definition bearer :: "request \<Rightarrow> string \<times> string" where
  "bearer req = (''Authorization'', ''Bearer '' @ js_to_string (field (session req) ''accessToken''))"

text \<open>The common end of the three proxy handlers: the upstream status and JSON body are
  sent on; a rejected promise (of \<^verbatim>\<open>fetch\<close> or of \<^verbatim>\<open>json()\<close>) is caught and answered 500.\<close>

definition relay :: "runtime \<Rightarrow> request \<Rightarrow> fetch_request \<Rightarrow> string \<Rightarrow> result" where
  "relay rt req call failure =
    (case fetch rt call of
       Responded st (Some json) \<Rightarrow>
         \<lparr>response = SendJson st json, session_out = session req, calls = [call]\<rparr>
     | _ \<Rightarrow>
         \<lparr>response = SendJson 500 (JObj [(''error'', JStr failure)]),
          session_out = session req, calls = [call]\<rparr>)"

definition list_designs :: "runtime \<Rightarrow> request \<Rightarrow> result" where
  "list_designs rt req =
    (let q = (if truthy (field (query req) ''q'') then field (query req) ''q'' else JStr [])
     in relay rt req
          \<lparr>url = ''https://api.canva.com/rest/v1/designs''
                 @ (if truthy q then ''?query='' @ form_encode (js_to_string q) else []),
           http_method = ''GET'',
           headers = [bearer req],
           payload = NoBody\<rparr>
          ''Error listing designs'')"

definition get_design :: "runtime \<Rightarrow> request \<Rightarrow> result" where
  "get_design rt req =
    relay rt req
      \<lparr>url = ''https://api.canva.com/rest/v1/designs/'' @ param_id req,
       http_method = ''GET'',
       headers = [bearer req],
       payload = NoBody\<rparr>
      ''Error fetching design''"

definition import_url :: "runtime \<Rightarrow> request \<Rightarrow> result" where
  "import_url rt req =
    (if nullish (body req)
     then \<lparr>response = Uncaught, session_out = session req, calls = []\<rparr>
     else
       let fileUrl = get_prop (body req) ''fileUrl''
       in if \<not> truthy fileUrl
          then \<lparr>response = SendJson 400 (JObj [(''error'', JStr ''fileUrl is required'')]),
                session_out = session req, calls = []\<rparr>
          else relay rt req
                 \<lparr>url = ''https://api.canva.com/rest/v1/design-imports/url'',
                  http_method = ''POST'',
                  headers = [bearer req, (''Content-Type'', ''application/json'')],
                  payload = JsonText (JObj [(''url'', fileUrl)])\<rparr>
                 ''Error importing design'')"

text \<open>The routes as \<^verbatim>\<open>app.get\<close> and \<^verbatim>\<open>app.post\<close> register them, behind the gateway.\<close>

definition route_designs :: "env \<Rightarrow> runtime \<Rightarrow> request \<Rightarrow> result" where
  "route_designs cfg rt = requireAccessToken cfg (list_designs rt)"

definition route_design :: "env \<Rightarrow> runtime \<Rightarrow> request \<Rightarrow> result" where
  "route_design cfg rt = requireAccessToken cfg (get_design rt)"

definition route_import :: "env \<Rightarrow> runtime \<Rightarrow> request \<Rightarrow> result" where
  "route_import cfg rt = requireAccessToken cfg (import_url rt)"

subsection \<open>Successive logins of one browser\<close>


section \<open>What the peers read\<close>

text \<open>The provider reads the parameters of the URL it is sent to: the text after the
  first \<^verbatim>\<open>?\<close>, cut at every \<^verbatim>\<open>&\<close>, each piece cut at its first \<^verbatim>\<open>=\<close>, and each value
  percent-decoded.\<close>

fun split_on :: "char \<Rightarrow> string \<Rightarrow> string list" where
  "split_on c [] = [[]]"
| "split_on c (x # xs) =
     (if x = c then [] # split_on c xs
      else (case split_on c xs of [] \<Rightarrow> [[x]] | y # ys \<Rightarrow> (x # y) # ys))"

definition key_value :: "string \<Rightarrow> string \<times> string" where
  "key_value p = (takeWhile (\<lambda>c. c \<noteq> CHR ''='') p, drop 1 (dropWhile (\<lambda>c. c \<noteq> CHR ''='') p))"

definition query_params :: "string \<Rightarrow> (string \<times> string) list" where
  "query_params u =
     map key_value (split_on CHR ''&'' (drop 1 (dropWhile (\<lambda>c. c \<noteq> CHR ''?'') u)))"

definition query_param :: "string \<Rightarrow> string \<Rightarrow> string option" where
  "query_param u k = map_of (query_params u) k"

definition hex_val :: "char \<Rightarrow> nat" where
  "hex_val c = (if c \<in> set ''0123456789'' then of_char c - 48 else of_char c - 55)"

fun pct_decode :: "string \<Rightarrow> string" where
  "pct_decode [] = []"
| "pct_decode [c] = [c]"
| "pct_decode [c, a] = [c, a]"
| "pct_decode (c # a # b # rest) =
     (if c = CHR ''%'' then char_of (hex_val a * 16 + hex_val b) # pct_decode rest
      else c # pct_decode (a # b # rest))"

text \<open>Where a redirect leads, and the value of a form field of an upstream call.\<close>

fun location :: "http_response \<Rightarrow> string option" where
  "location (Redirect st u) = Some u"
| "location _ = None"

fun form_value :: "fetch_request \<Rightarrow> string \<Rightarrow> string option" where
  "form_value call k = (case payload call of FormBody kvs \<Rightarrow> map_of kvs k | _ \<Rightarrow> None)"

section \<open>Sample inputs\<close>

definition sample_env :: env where
  "sample_env =
     \<lparr>CANVA_CLIENT_ID = Some ''OC-AZ1&x'', CANVA_CLIENT_SECRET = Some ''s3cret'',
      BASE_URL = Some ''http://127.0.0.1:3000'',
      REDIRECT_URI = Some ''http://127.0.0.1:3000/oauth/callback''\<rparr>"

text \<open>A provider that gives the same outcome to every call, at clock 1700000000000.\<close>

definition sample_runtime :: "fetch_outcome \<Rightarrow> runtime" where
  "sample_runtime outcome =
     \<lparr>now = 1700000000000, fetch = (\<lambda>call. outcome), string_to_number = (\<lambda>s. NaN)\<rparr>"

definition sample_request :: "(string \<times> jsval) list \<Rightarrow> jsval \<Rightarrow> (string \<times> jsval) list \<Rightarrow> request" where
  "sample_request q b sess =
     \<lparr>query = map_of q, param_id = ''DAGiMoGkG1s'', body = b, session = map_of sess\<rparr>"

text \<open>The code verifier of the example in appendix B of RFC 7636.\<close>

definition rfc7636_verifier :: string where
  "rfc7636_verifier = ''dBjftJeZ4CVP-mB92K27uhbUJU1p1r_wW1gFWFOEjXk''"

definition sample_entropy :: entropy where
  "sample_entropy i = of_nat (7 * i + 3)"

section \<open>Facts about the encodings\<close>

lemma hex_val_hex_char: "d < 16 \<Longrightarrow> hex_val (hex_char d) = d"
proof -
  assume "d < 16"
  then have "d \<in> {0, 1, 2, 3, 4, 5, 6, 7, 8, 9, 10, 11, 12, 13, 14, 15}" by simp arith
  then show ?thesis
    by (elim insertE emptyE) (simp_all add: hex_char_def hex_val_def)
qed

lemma hex_char_in: "hex_char d \<in> set ''0123456789ABCDEF''"
  unfolding hex_char_def by (rule nth_mem) simp

lemma pct_decode_pct_encode: "pct_decode (pct_encode c @ rest) = c # pct_decode rest"
proof -
  have "(of_char c :: nat) < 256" by simp
  then have d: "(of_char c :: nat) div 16 < 16" by (simp add: less_mult_imp_div_less)
  have "hex_val (hex_char (of_char c div 16)) * 16 + hex_val (hex_char (of_char c mod 16))
        = (of_char c :: nat)"
    using d by (simp add: hex_val_hex_char)
  then show ?thesis by (simp add: pct_encode_def)
qed

lemma pct_decode_plain: "c \<noteq> CHR ''%'' \<Longrightarrow> pct_decode (c # rest) = c # pct_decode rest"
  by (cases rest rule: pct_decode.cases) auto

lemma unreserved_not_pct: "uri_unreserved c \<Longrightarrow> c \<noteq> CHR ''%''"
  by (auto simp: uri_unreserved_def alphanum_def)

lemma pct_decode_encodeURIComponent: "pct_decode (encodeURIComponent s) = s"
  by (induction s)
     (simp_all add: encodeURIComponent_def pct_decode_pct_encode pct_decode_plain unreserved_not_pct)

lemma nth_mod_mem: "length al = 64 \<Longrightarrow> al ! (k mod 64) \<in> set al"
  by (rule nth_mem) simp

lemma b64_chars: "length al = 64 \<Longrightarrow> set (b64 al False bs) \<subseteq> set al"
proof (induction al "False" bs rule: b64.induct)
  case (1 al a b c rest)
  then show ?case by (simp add: Let_def nth_mod_mem del: mod_mod_trivial)
next
  case (2 al a b)
  then show ?case by (simp add: Let_def nth_mod_mem)
next
  case (3 al a)
  then show ?case by (simp add: Let_def nth_mod_mem)
next
  case (4 al)
  show ?case by simp
qed

lemma base64url_chars: "set (base64url bs) \<subseteq> set b64_url"
  unfolding base64url_def by (rule b64_chars) (simp add: b64_url_def)

lemma encodeURIComponent_avoids:
  assumes "\<not> uri_unreserved x" and "x \<notin> set ''%0123456789ABCDEF''"
  shows "x \<notin> set (encodeURIComponent s)"
proof (induction s)
  case Nil
  show ?case by (simp add: encodeURIComponent_def)
next
  case (Cons c s)
  have h: "x \<noteq> hex_char d" for d
    using hex_char_in [of d] assms(2) by auto
  have p: "x \<noteq> CHR ''%''"
    using assms(2) by simp
  have "x \<notin> set (pct_encode c)"
    using h p by (simp add: pct_encode_def)
  moreover have "uri_unreserved c \<Longrightarrow> x \<noteq> c"
    using assms(1) by auto
  moreover have "encodeURIComponent (c # s)
      = (if uri_unreserved c then [c] else pct_encode c) @ encodeURIComponent s"
    by (simp add: encodeURIComponent_def)
  ultimately show ?case
    using Cons by auto
qed

lemma amp_reserved: "\<not> uri_unreserved (CHR ''&'')"
  by (simp add: uri_unreserved_def alphanum_def)

lemma encodeURIComponent_no_amp: "CHR ''&'' \<notin> set (encodeURIComponent s)"
  by (rule encodeURIComponent_avoids [OF amp_reserved]) simp

lemma base64url_no_amp: "CHR ''&'' \<notin> set (base64url bs)"
  using base64url_chars [of bs] by (auto simp: b64_url_def)

lemma split_on_single: "c \<notin> set a \<Longrightarrow> split_on c a = [a]"
  by (induction a) auto

lemma split_on_piece: "c \<notin> set a \<Longrightarrow> split_on c (a @ c # b) = a # split_on c b"
  by (induction a) auto

lemma key_value_pair: "CHR ''='' \<notin> set k \<Longrightarrow> key_value (k @ CHR ''='' # v) = (k, v)"
  by (induction k) (auto simp: key_value_def)


section \<open>The S256 example of RFC 7636\<close>

text \<open>
  Appendix B of RFC 7636 gives a code verifier and the challenge that the method S256
  derives from it. The digest of the verifier is computed here step by step: the sixteen
  words of the padded block, the message schedule eight words at a time, the sixty-four
  rounds eight at a time, and the final sum.
\<close>

lemma schedule_add: "schedule (a + b) w = schedule b (schedule a w)"
  by (induction a arbitrary: w) simp_all

lemma schedule_numeral: "schedule (numeral k) w = schedule (pred_numeral k) (w @ [next_w w])"
  by (simp add: numeral_eq_Suc)

lemma replicate_numeral: "replicate (numeral k) x = x # replicate (pred_numeral k) x"
  by (simp add: numeral_eq_Suc)

lemmas sha256_unfold = next_w_def ssig0_def ssig1_def bsig0_def bsig1_def Ch_def Maj_def rotr_def

lemma rfc_words:
  "be_words (sha256_pad (utf8 rfc7636_verifier)) = [
     1682074214, 1951032666, 876828240, 762135097, 843788855, 1969775189, 1247097200,
     829579127, 1462855494, 1464225605, 1784179584, 0, 0, 0, 0, 344]"
  by (simp add: rfc7636_verifier_def sha256_pad_def utf8_def be_bytes_def upt_rec replicate_numeral)

lemma rfc_schedule_1:
  "schedule 8 [
     1682074214, 1951032666, 876828240, 762135097, 843788855, 1969775189, 1247097200,
     829579127, 1462855494, 1464225605, 1784179584, 0, 0, 0, 0, 344]
   = [
     1682074214, 1951032666, 876828240, 762135097, 843788855, 1969775189, 1247097200,
     829579127, 1462855494, 1464225605, 1784179584, 0, 0, 0, 0, 344, 3737124638, 1386132048,
     1545055071, 1636041625, 267449454, 2626846496, 782225423, 1612690371]"
  by (simp add: schedule_numeral sha256_unfold)

lemma rfc_schedule_2:
  "schedule 8 [
     1682074214, 1951032666, 876828240, 762135097, 843788855, 1969775189, 1247097200,
     829579127, 1462855494, 1464225605, 1784179584, 0, 0, 0, 0, 344, 3737124638, 1386132048,
     1545055071, 1636041625, 267449454, 2626846496, 782225423, 1612690371]
   = [
     1682074214, 1951032666, 876828240, 762135097, 843788855, 1969775189, 1247097200,
     829579127, 1462855494, 1464225605, 1784179584, 0, 0, 0, 0, 344, 3737124638, 1386132048,
     1545055071, 1636041625, 267449454, 2626846496, 782225423, 1612690371, 3480551333,
     4200562101, 2884760196, 1631832617, 1674230810, 3404307594, 437011231, 2802368253]"
  by (simp add: schedule_numeral sha256_unfold)

lemma rfc_schedule_3:
  "schedule 8 [
     1682074214, 1951032666, 876828240, 762135097, 843788855, 1969775189, 1247097200,
     829579127, 1462855494, 1464225605, 1784179584, 0, 0, 0, 0, 344, 3737124638, 1386132048,
     1545055071, 1636041625, 267449454, 2626846496, 782225423, 1612690371, 3480551333,
     4200562101, 2884760196, 1631832617, 1674230810, 3404307594, 437011231, 2802368253]
   = [
     1682074214, 1951032666, 876828240, 762135097, 843788855, 1969775189, 1247097200,
     829579127, 1462855494, 1464225605, 1784179584, 0, 0, 0, 0, 344, 3737124638, 1386132048,
     1545055071, 1636041625, 267449454, 2626846496, 782225423, 1612690371, 3480551333,
     4200562101, 2884760196, 1631832617, 1674230810, 3404307594, 437011231, 2802368253,
     2305649075, 2802210646, 356463710, 2276557634, 618620203, 2551500691, 2585092433,
     1430510983]"
  by (simp add: schedule_numeral sha256_unfold)

lemma rfc_schedule_4:
  "schedule 8 [
     1682074214, 1951032666, 876828240, 762135097, 843788855, 1969775189, 1247097200,
     829579127, 1462855494, 1464225605, 1784179584, 0, 0, 0, 0, 344, 3737124638, 1386132048,
     1545055071, 1636041625, 267449454, 2626846496, 782225423, 1612690371, 3480551333,
     4200562101, 2884760196, 1631832617, 1674230810, 3404307594, 437011231, 2802368253,
     2305649075, 2802210646, 356463710, 2276557634, 618620203, 2551500691, 2585092433,
     1430510983]
   = [
     1682074214, 1951032666, 876828240, 762135097, 843788855, 1969775189, 1247097200,
     829579127, 1462855494, 1464225605, 1784179584, 0, 0, 0, 0, 344, 3737124638, 1386132048,
     1545055071, 1636041625, 267449454, 2626846496, 782225423, 1612690371, 3480551333,
     4200562101, 2884760196, 1631832617, 1674230810, 3404307594, 437011231, 2802368253,
     2305649075, 2802210646, 356463710, 2276557634, 618620203, 2551500691, 2585092433,
     1430510983, 1056047589, 93174362, 549822574, 2286070390, 3422339793, 2466830788,
     677426103, 2320265331]"
  by (simp add: schedule_numeral sha256_unfold)

lemma rfc_schedule_5:
  "schedule 8 [
     1682074214, 1951032666, 876828240, 762135097, 843788855, 1969775189, 1247097200,
     829579127, 1462855494, 1464225605, 1784179584, 0, 0, 0, 0, 344, 3737124638, 1386132048,
     1545055071, 1636041625, 267449454, 2626846496, 782225423, 1612690371, 3480551333,
     4200562101, 2884760196, 1631832617, 1674230810, 3404307594, 437011231, 2802368253,
     2305649075, 2802210646, 356463710, 2276557634, 618620203, 2551500691, 2585092433,
     1430510983, 1056047589, 93174362, 549822574, 2286070390, 3422339793, 2466830788,
     677426103, 2320265331]
   = [
     1682074214, 1951032666, 876828240, 762135097, 843788855, 1969775189, 1247097200,
     829579127, 1462855494, 1464225605, 1784179584, 0, 0, 0, 0, 344, 3737124638, 1386132048,
     1545055071, 1636041625, 267449454, 2626846496, 782225423, 1612690371, 3480551333,
     4200562101, 2884760196, 1631832617, 1674230810, 3404307594, 437011231, 2802368253,
     2305649075, 2802210646, 356463710, 2276557634, 618620203, 2551500691, 2585092433,
     1430510983, 1056047589, 93174362, 549822574, 2286070390, 3422339793, 2466830788,
     677426103, 2320265331, 186514594, 4051385571, 3564328168, 3642276296, 2157642169,
     4102264120, 4170240445, 1715669472]"
  by (simp add: schedule_numeral sha256_unfold)

lemma rfc_schedule_6:
  "schedule 8 [
     1682074214, 1951032666, 876828240, 762135097, 843788855, 1969775189, 1247097200,
     829579127, 1462855494, 1464225605, 1784179584, 0, 0, 0, 0, 344, 3737124638, 1386132048,
     1545055071, 1636041625, 267449454, 2626846496, 782225423, 1612690371, 3480551333,
     4200562101, 2884760196, 1631832617, 1674230810, 3404307594, 437011231, 2802368253,
     2305649075, 2802210646, 356463710, 2276557634, 618620203, 2551500691, 2585092433,
     1430510983, 1056047589, 93174362, 549822574, 2286070390, 3422339793, 2466830788,
     677426103, 2320265331, 186514594, 4051385571, 3564328168, 3642276296, 2157642169,
     4102264120, 4170240445, 1715669472]
   = [
     1682074214, 1951032666, 876828240, 762135097, 843788855, 1969775189, 1247097200,
     829579127, 1462855494, 1464225605, 1784179584, 0, 0, 0, 0, 344, 3737124638, 1386132048,
     1545055071, 1636041625, 267449454, 2626846496, 782225423, 1612690371, 3480551333,
     4200562101, 2884760196, 1631832617, 1674230810, 3404307594, 437011231, 2802368253,
     2305649075, 2802210646, 356463710, 2276557634, 618620203, 2551500691, 2585092433,
     1430510983, 1056047589, 93174362, 549822574, 2286070390, 3422339793, 2466830788,
     677426103, 2320265331, 186514594, 4051385571, 3564328168, 3642276296, 2157642169,
     4102264120, 4170240445, 1715669472, 2104546194, 1880716777, 3288856930, 663703457,
     1902297551, 561519983, 2980560961, 1328313667]"
  by (simp add: schedule_numeral sha256_unfold)

lemma rfc_schedule:
  "schedule 48 (be_words (sha256_pad (utf8 rfc7636_verifier))) = [
     1682074214, 1951032666, 876828240, 762135097, 843788855, 1969775189, 1247097200,
     829579127, 1462855494, 1464225605, 1784179584, 0, 0, 0, 0, 344, 3737124638, 1386132048,
     1545055071, 1636041625, 267449454, 2626846496, 782225423, 1612690371, 3480551333,
     4200562101, 2884760196, 1631832617, 1674230810, 3404307594, 437011231, 2802368253,
     2305649075, 2802210646, 356463710, 2276557634, 618620203, 2551500691, 2585092433,
     1430510983, 1056047589, 93174362, 549822574, 2286070390, 3422339793, 2466830788,
     677426103, 2320265331, 186514594, 4051385571, 3564328168, 3642276296, 2157642169,
     4102264120, 4170240445, 1715669472, 2104546194, 1880716777, 3288856930, 663703457,
     1902297551, 561519983, 2980560961, 1328313667]"
proof -
  have "schedule 48 w = schedule 8 (schedule 8 (schedule 8 (schedule 8 (schedule 8 (schedule 8 w)))))" for w
    using schedule_add [of 8 40 w] schedule_add [of 8 32] schedule_add [of 8 24]
      schedule_add [of 8 16] schedule_add [of 8 8] by simp
  then show ?thesis
    by (simp only: rfc_words rfc_schedule_1 rfc_schedule_2 rfc_schedule_3 rfc_schedule_4 rfc_schedule_5 rfc_schedule_6)
qed

lemma rfc_rounds_1:
  "foldl sha256_round [
     1779033703, 3144134277, 1013904242, 2773480762, 1359893119, 2600822924, 528734635,
     1541459225] [
     (1116352408, 1682074214), (1899447441, 1951032666), (3049323471, 876828240),
     (3921009573, 762135097), (961987163, 843788855), (1508970993, 1969775189),
     (2453635748, 1247097200), (2870763221, 829579127)]
   = [
     3736592252, 3158685957, 1301646704, 634954127, 2822612770, 1110973351, 891613693,
     1166876716]"
  by (simp add: sha256_unfold)

lemma rfc_rounds_2:
  "foldl sha256_round [
     3736592252, 3158685957, 1301646704, 634954127, 2822612770, 1110973351, 891613693,
     1166876716] [
     (3624381080, 1462855494), (310598401, 1464225605), (607225278, 1784179584),
     (1426881987, 0), (1925078388, 0), (2162078206, 0), (2614888103, 0), (3248222580, 344)]
   = [
     641124843, 257023227, 1210501889, 850047385, 541302165, 3812714564, 1564234105,
     1666808007]"
  by (simp add: sha256_unfold)

lemma rfc_rounds_3:
  "foldl sha256_round [
     641124843, 257023227, 1210501889, 850047385, 541302165, 3812714564, 1564234105,
     1666808007] [
     (3835390401, 3737124638), (4022224774, 1386132048), (264347078, 1545055071),
     (604807628, 1636041625), (770255983, 267449454), (1249150122, 2626846496),
     (1555081692, 782225423), (1996064986, 1612690371)]
   = [
     1832686567, 3920437579, 3790060594, 2562309491, 2791431706, 776657420, 1560741564,
     2966306120]"
  by (simp add: sha256_unfold)

lemma rfc_rounds_4:
  "foldl sha256_round [
     1832686567, 3920437579, 3790060594, 2562309491, 2791431706, 776657420, 1560741564,
     2966306120] [
     (2554220882, 3480551333), (2821834349, 4200562101), (2952996808, 2884760196),
     (3210313671, 1631832617), (3336571891, 1674230810), (3584528711, 3404307594),
     (113926993, 437011231), (338241895, 2802368253)]
   = [
     2798556854, 918560565, 2993426826, 265419590, 2871511288, 2249040181, 2789771253,
     1567214932]"
  by (simp add: sha256_unfold)

lemma rfc_rounds_5:
  "foldl sha256_round [
     2798556854, 918560565, 2993426826, 265419590, 2871511288, 2249040181, 2789771253,
     1567214932] [
     (666307205, 2305649075), (773529912, 2802210646), (1294757372, 356463710),
     (1396182291, 2276557634), (1695183700, 618620203), (1986661051, 2551500691),
     (2177026350, 2585092433), (2456956037, 1430510983)]
   = [
     2552869278, 833935404, 3115479725, 1699621408, 2866666899, 2437522071, 1901856049,
     2460506999]"
  by (simp add: sha256_unfold)

lemma rfc_rounds_6:
  "foldl sha256_round [
     2552869278, 833935404, 3115479725, 1699621408, 2866666899, 2437522071, 1901856049,
     2460506999] [
     (2730485921, 1056047589), (2820302411, 93174362), (3259730800, 549822574),
     (3345764771, 2286070390), (3516065817, 3422339793), (3600352804, 2466830788),
     (4094571909, 677426103), (275423344, 2320265331)]
   = [
     4292107201, 3432519761, 2180298054, 2815373003, 1155272145, 398707073, 2183671599,
     3122742861]"
  by (simp add: sha256_unfold)

lemma rfc_rounds_7:
  "foldl sha256_round [
     4292107201, 3432519761, 2180298054, 2815373003, 1155272145, 398707073, 2183671599,
     3122742861] [
     (430227734, 186514594), (506948616, 4051385571), (659060556, 3564328168),
     (883997877, 3642276296), (958139571, 2157642169), (1322822218, 4102264120),
     (1537002063, 4170240445), (1747873779, 1715669472)]
   = [
     896211660, 3155797714, 453973969, 2632217691, 1309197375, 1620115963, 937962974,
     2424222859]"
  by (simp add: sha256_unfold)

lemma rfc_rounds_8:
  "foldl sha256_round [
     896211660, 3155797714, 453973969, 2632217691, 1309197375, 1620115963, 937962974,
     2424222859] [
     (1955562222, 2104546194), (2024104815, 1880716777), (2227730452, 3288856930),
     (2361852424, 663703457), (2428436474, 1902297551), (2756734187, 561519983),
     (3204031479, 2980560961), (3329325298, 1328313667)]
   = [
     2848536623, 1588800103, 4071079322, 2806528206, 630859310, 3538672586, 1331539871,
     1871719594]"
  by (simp add: sha256_unfold)

lemma rfc_compress:
  "compress sha256_H0 (sha256_pad (utf8 rfc7636_verifier)) = [
     332603030, 437967084, 790016268, 1285041672, 1990752429, 1844528214, 1860274506,
     3413178819]"
proof -
  let ?p1 = "[
       (1116352408, 1682074214), (1899447441, 1951032666), (3049323471, 876828240),
       (3921009573, 762135097), (961987163, 843788855), (1508970993, 1969775189),
       (2453635748, 1247097200), (2870763221, 829579127)]"
  let ?p2 = "[
       (3624381080, 1462855494), (310598401, 1464225605), (607225278, 1784179584),
       (1426881987, 0), (1925078388, 0), (2162078206, 0), (2614888103, 0), (3248222580, 344)]"
  let ?p3 = "[
       (3835390401, 3737124638), (4022224774, 1386132048), (264347078, 1545055071),
       (604807628, 1636041625), (770255983, 267449454), (1249150122, 2626846496),
       (1555081692, 782225423), (1996064986, 1612690371)]"
  let ?p4 = "[
       (2554220882, 3480551333), (2821834349, 4200562101), (2952996808, 2884760196),
       (3210313671, 1631832617), (3336571891, 1674230810), (3584528711, 3404307594),
       (113926993, 437011231), (338241895, 2802368253)]"
  let ?p5 = "[
       (666307205, 2305649075), (773529912, 2802210646), (1294757372, 356463710),
       (1396182291, 2276557634), (1695183700, 618620203), (1986661051, 2551500691),
       (2177026350, 2585092433), (2456956037, 1430510983)]"
  let ?p6 = "[
       (2730485921, 1056047589), (2820302411, 93174362), (3259730800, 549822574),
       (3345764771, 2286070390), (3516065817, 3422339793), (3600352804, 2466830788),
       (4094571909, 677426103), (275423344, 2320265331)]"
  let ?p7 = "[
       (430227734, 186514594), (506948616, 4051385571), (659060556, 3564328168),
       (883997877, 3642276296), (958139571, 2157642169), (1322822218, 4102264120),
       (1537002063, 4170240445), (1747873779, 1715669472)]"
  let ?p8 = "[
       (1955562222, 2104546194), (2024104815, 1880716777), (2227730452, 3288856930),
       (2361852424, 663703457), (2428436474, 1902297551), (2756734187, 561519983),
       (3204031479, 2980560961), (3329325298, 1328313667)]"
  have z: "zip sha256_K (schedule 48 (be_words (sha256_pad (utf8 rfc7636_verifier))))
      = ?p1 @ ?p2 @ ?p3 @ ?p4 @ ?p5 @ ?p6 @ ?p7 @ ?p8"
    by (simp add: rfc_schedule sha256_K_def)
  have f: "foldl sha256_round sha256_H0
             (zip sha256_K (schedule 48 (be_words (sha256_pad (utf8 rfc7636_verifier)))))
      = [
       2848536623, 1588800103, 4071079322, 2806528206, 630859310, 3538672586, 1331539871,
       1871719594]"
    by (simp only: z foldl_append sha256_H0_def rfc_rounds_1 rfc_rounds_2 rfc_rounds_3 rfc_rounds_4 rfc_rounds_5 rfc_rounds_6 rfc_rounds_7 rfc_rounds_8)
  show ?thesis
    unfolding compress_def f by (simp add: sha256_H0_def)
qed

lemma rfc_digest:
  "sha256 (utf8 rfc7636_verifier) = [
     19, 211, 30, 150, 26, 26, 216, 236, 47, 22, 177, 12, 76, 152, 46, 8, 118, 168, 120, 173,
     109, 241, 68, 86, 110, 225, 137, 74, 203, 112, 249, 195]"
proof -
  let ?p = "sha256_pad (utf8 rfc7636_verifier)"
  have len: "length ?p = 64"
    by (simp add: rfc7636_verifier_def sha256_pad_def utf8_def be_bytes_def)
  have "blocks (Suc 0) ?p = [?p]"
    using len by simp
  then have one: "blocks (length ?p div 64) ?p = [?p]"
    by (simp add: len)
  have "sha256 (utf8 rfc7636_verifier)
      = concat (map (\<lambda>w. be_bytes 4 (unat w)) (foldl compress sha256_H0 [?p]))"
    by (simp only: sha256_def Let_def one)
  also have "\<dots> = concat (map (\<lambda>w. be_bytes 4 (unat w)) (compress sha256_H0 ?p))"
    by (simp only: foldl.simps)
  finally show ?thesis
    by (simp add: rfc_compress be_bytes_def upt_rec)
qed

lemma rfc7636_challenge:
  "base64url (sha256 (utf8 rfc7636_verifier)) = ''E9Melhoa2OwvFrEMTJguCHaoeK1t8URWbuGJSstw-cM''"
  by (simp add: rfc_digest base64url_def b64_url_def)

section \<open>Facts about double arithmetic\<close>








text \<open>Beyond that range the operations round: with \<^verbatim>\<open>expires_in = 9007199254740991\<close> the
  product and then the sum are the nearest doubles, not the exact integers.\<close>

lemma floor_numeral_div: "\<lfloor>numeral a / numeral b :: rat\<rfloor> = numeral a div numeral b"
  using floor_divide_of_int_eq [of "numeral a" "numeral b", where ?'a = rat] by simp
lemma a3: "floor_log 2 9007199254740991000 = 62"
  by (simp add: floor_log_def ipow_def ndigits.simps)
lemma a5: "floor_log 2 9007200954740990976 = 62"
  by (simp add: floor_log_def ipow_def ndigits.simps)
lemma r1: "to_double 9007199254740991000 = Fin 9007199254740990976"
  by (simp add: to_double_def a3 ipow_def round_half_even_def Let_def floor_numeral_div)
lemma r2: "to_double 9007200954740990976 = Fin 9007200954740990976"
  by (simp add: to_double_def a5 ipow_def round_half_even_def Let_def floor_numeral_div)
lemma rounding_example:
  "num_plus (Fin 1700000000000) (num_times (Fin 9007199254740991) (Fin 1000))
     = Fin 9007200954740990976"
  by (simp add: r1 r2)

section \<open>Facts about the handlers\<close>

lemma oauth_login_response:
  "response (fst (oauth_login cfg src req)) =
     Redirect 302
       (authorize_endpoint @ ''?'' @
        (''response_type=code'' @
         CHR ''&'' # (''client_id='' @ encodeURIComponent (env_str (CANVA_CLIENT_ID cfg))) @
         CHR ''&'' # (''redirect_uri='' @ encodeURIComponent (env_str (REDIRECT_URI cfg))) @
         CHR ''&'' # (''scope='' @ encodeURIComponent ''design:meta:read'') @
         CHR ''&'' # (''code_challenge='' @ base64url (sha256 (utf8 (base64url
                        (fst (randomBytes 96 (snd (randomBytes 24 src)))))))) @
         CHR ''&'' # ''code_challenge_method=s256'' @
         CHR ''&'' # (''state='' @ base64url (fst (randomBytes 24 src)))))"
  by (simp add: oauth_login_def Let_def split_beta)

lemma oauth_login_session:
  "session_out (fst (oauth_login cfg src req)) =
     (session req)(''oauthState'' \<mapsto> JStr (base64url (fst (randomBytes 24 src))),
                   ''codeVerifier'' \<mapsto> JStr (base64url (fst (randomBytes 96 (snd (randomBytes 24 src))))))"
  by (simp add: oauth_login_def Let_def split_beta)

lemma query_params_build:
  assumes "CHR ''?'' \<notin> set base"
  shows "query_params (base @ ''?'' @ q) = map key_value (split_on CHR ''&'' q)"
  using assms by (induction base) (auto simp: query_params_def)

lemma oauth_login_query:
  "\<exists>loc. response (fst (oauth_login cfg src req)) = Redirect 302 loc \<and>
     query_params loc =
       [(''response_type'', ''code''),
        (''client_id'', encodeURIComponent (env_str (CANVA_CLIENT_ID cfg))),
        (''redirect_uri'', encodeURIComponent (env_str (REDIRECT_URI cfg))),
        (''scope'', ''design%3Ameta%3Aread''),
        (''code_challenge'', base64url (sha256 (utf8 (base64url
                        (fst (randomBytes 96 (snd (randomBytes 24 src)))))))),
        (''code_challenge_method'', ''s256''),
        (''state'', base64url (fst (randomBytes 24 src)))]"
proof -
  let ?p1 = "''response_type=code''"
  let ?p2 = "''client_id='' @ encodeURIComponent (env_str (CANVA_CLIENT_ID cfg))"
  let ?p3 = "''redirect_uri='' @ encodeURIComponent (env_str (REDIRECT_URI cfg))"
  let ?p4 = "''scope='' @ encodeURIComponent ''design:meta:read''"
  let ?p5 = "''code_challenge='' @ base64url (sha256 (utf8 (base64url
                        (fst (randomBytes 96 (snd (randomBytes 24 src)))))))"
  let ?p6 = "''code_challenge_method=s256''"
  let ?p7 = "''state='' @ base64url (fst (randomBytes 24 src))"
  have n1: "CHR ''&'' \<notin> set ?p1" by simp
  have n2: "CHR ''&'' \<notin> set ?p2" by (simp add: encodeURIComponent_no_amp)
  have n3: "CHR ''&'' \<notin> set ?p3" by (simp add: encodeURIComponent_no_amp)
  have n4: "CHR ''&'' \<notin> set ?p4" by (simp add: encodeURIComponent_no_amp)
  have n5: "CHR ''&'' \<notin> set ?p5" by (simp add: base64url_no_amp)
  have n6: "CHR ''&'' \<notin> set ?p6" by simp
  have n7: "CHR ''&'' \<notin> set ?p7" by (simp add: base64url_no_amp)
  have sp: "split_on CHR ''&'' (?p1 @ CHR ''&'' # ?p2 @ CHR ''&'' # ?p3 @ CHR ''&'' # ?p4 @
              CHR ''&'' # ?p5 @ CHR ''&'' # ?p6 @ CHR ''&'' # ?p7)
            = [?p1, ?p2, ?p3, ?p4, ?p5, ?p6, ?p7]"
    by (simp only: split_on_piece [OF n1] split_on_piece [OF n2] split_on_piece [OF n3]
          split_on_piece [OF n4] split_on_piece [OF n5] split_on_piece [OF n6]
          split_on_single [OF n7])
  have kv: "key_value (k @ CHR ''='' # v) = (k, v)" if "CHR ''='' \<notin> set k" for k v
    using that by (rule key_value_pair)
  have k1: "key_value ?p1 = (''response_type'', ''code'')"
    using kv [of "''response_type''" "''code''"] by simp
  have k2: "key_value ?p2 = (''client_id'', encodeURIComponent (env_str (CANVA_CLIENT_ID cfg)))"
    using kv [of "''client_id''"] by simp
  have k3: "key_value ?p3 = (''redirect_uri'', encodeURIComponent (env_str (REDIRECT_URI cfg)))"
    using kv [of "''redirect_uri''"] by simp
  have sc: "encodeURIComponent ''design:meta:read'' = ''design%3Ameta%3Aread''"
    by (simp add: encodeURIComponent_def uri_unreserved_def alphanum_def pct_encode_def hex_char_def)
  have k4: "key_value ?p4 = (''scope'', ''design%3Ameta%3Aread'')"
    using kv [of "''scope''" "''design%3Ameta%3Aread''"] by (simp add: sc)
  have k5: "key_value ?p5 = (''code_challenge'', base64url (sha256 (utf8 (base64url
                        (fst (randomBytes 96 (snd (randomBytes 24 src))))))))"
    using kv [of "''code_challenge''"] by simp
  have k6: "key_value ?p6 = (''code_challenge_method'', ''s256'')"
    using kv [of "''code_challenge_method''" "''s256''"] by simp
  have k7: "key_value ?p7 = (''state'', base64url (fst (randomBytes 24 src)))"
    using kv [of "''state''"] by simp
  have q: "CHR ''?'' \<notin> set authorize_endpoint"
    by (simp add: authorize_endpoint_def)
  show ?thesis
    unfolding oauth_login_response
    by (simp only: http_response.inject simp_thms ex_simps query_params_build [OF q] sp
          list.map k1 k2 k3 k4 k5 k6 k7) 
qed






lemma sample_first_verifier:
  "base64url (fst (randomBytes 96 (snd (randomBytes 24 sample_entropy)))) = ''q7K5wMfO1dzj6vH4_wYNFBsiKTA3PkVMU1phaG92fYSLkpmgp661vMPK0djf5u30-wIJEBceJSwzOkFIT1ZdZGtyeYCHjpWco6qxuL_GzdTb4unw9_4FDBMaISgvNj1E''"
  by (simp add: base64url_def randomBytes_def sample_entropy_def b64_url_def upt_rec)

lemma callback_calls:
  "calls (oauth_callback cfg rt req) =
     (if truthy (field (query req) ''code'') \<and> truthy (field (query req) ''state'')
         \<and> strict_eq (field (query req) ''state'') (field (session req) ''oauthState'')
      then [token_request cfg (field (query req) ''code'') (field (session req) ''codeVerifier'')]
      else [])"
  by (simp add: oauth_callback_def Let_def split: fetch_outcome.splits option.splits)

lemma login_redirect_uri:
  assumes "response (fst (oauth_login cfg src req0)) = Redirect 302 loc"
  shows "map_option pct_decode (query_param loc ''redirect_uri'') = Some (env_str (REDIRECT_URI cfg))"
  using assms oauth_login_query [of cfg src req0]
  by (auto simp: query_param_def pct_decode_encodeURIComponent)

lemma map_of_without: "map_of (filter (\<lambda>kv. fst kv \<noteq> k) kvs) k = None"
  by (induction kvs) auto

lemma relay_calls: "calls (relay rt req c msg) = [c]"
  by (simp add: relay_def split: fetch_outcome.splits option.splits)

lemma relay_answer:
  assumes "r = relay rt req c msg \<or> calls r = []"
  shows "\<forall>call. calls r = [call] \<longrightarrow>
            (\<forall>st json. fetch rt call = Responded st (Some json) \<longrightarrow> response r = SendJson st json)
          \<and> (\<forall>st. fetch rt call = Responded st None \<or> fetch rt call = NetworkError \<longrightarrow>
               (\<exists>m. response r = SendJson 500 (JObj [(''error'', JStr m)])))"
  using assms
  by (auto simp: relay_def split: fetch_outcome.splits option.splits)

lemma handler_shape:
  assumes "h \<in> {list_designs rt, get_design rt, import_url rt,
                 route_designs cfg rt, route_design cfg rt, route_import cfg rt}"
  shows "\<exists>c msg. h req = relay rt req c msg \<or> calls (h req) = []"
proof -
  have l: "\<exists>c msg. list_designs rt req = relay rt req c msg"
    by (simp add: list_designs_def Let_def) blast
  have g: "\<exists>c msg. get_design rt req = relay rt req c msg"
    by (simp add: get_design_def) blast
  have i: "\<exists>c msg. import_url rt req = relay rt req c msg \<or> calls (import_url rt req) = []"
    by (simp add: import_url_def Let_def) blast
  have w: "\<exists>c msg. requireAccessToken cfg k req = relay rt req c msg
          \<or> calls (requireAccessToken cfg k req) = []"
    if "\<exists>c msg. k req = relay rt req c msg \<or> calls (k req) = []" for k
    using that by (simp add: requireAccessToken_def)
  have l': "\<exists>c msg. list_designs rt req = relay rt req c msg \<or> calls (list_designs rt req) = []"
    using l by blast
  have g': "\<exists>c msg. get_design rt req = relay rt req c msg \<or> calls (get_design rt req) = []"
    using g by blast
  from assms consider "h = list_designs rt" | "h = get_design rt" | "h = import_url rt"
    | "h = route_designs cfg rt" | "h = route_design cfg rt" | "h = route_import cfg rt"
    by blast
  then show ?thesis
  proof cases
    case 1
    then show ?thesis using l' by simp
  next
    case 2
    then show ?thesis using g' by simp
  next
    case 3
    then show ?thesis using i by simp
  next
    case 4
    then show ?thesis using w [of "list_designs rt", OF l'] by (simp add: route_designs_def)
  next
    case 5
    then show ?thesis using w [of "get_design rt", OF g'] by (simp add: route_design_def)
  next
    case 6
    then show ?thesis using w [of "import_url rt", OF i] by (simp add: route_import_def)
  qed
qed

section \<open>The callback checks the state before anything else\<close>

lemma strict_eq_imp_eq: "strict_eq a b \<Longrightarrow> a = b"
  by (induction a b rule: strict_eq.induct) auto

text \<open>
  Claim C1. A callback whose query has no \<^verbatim>\<open>code\<close>, or no \<^verbatim>\<open>state\<close>, or a \<^verbatim>\<open>state\<close> that
  differs from the \<^verbatim>\<open>oauthState\<close> of the session, is answered 400, and no call is made to
  the provider.
\<close>

theorem callback_rejects_bad_state:
  assumes "query req ''code'' = None \<or> query req ''state'' = None
           \<or> field (query req) ''state'' \<noteq> field (session req) ''oauthState''"
  shows "response (oauth_callback cfg rt req) = Send 400 ''Invalid OAuth state or missing code''
         \<and> calls (oauth_callback cfg rt req) = []"
  using assms
    strict_eq_imp_eq [of "field (query req) ''state''" "field (session req) ''oauthState''"]
  by (auto simp: oauth_callback_def field_def Let_def)

theorem callback_rejects_bad_state_witness:
  "(let req = sample_request [(''code'', JStr ''c0de''), (''state'', JStr ''abc'')] JNull
                [(''oauthState'', JStr ''abd'')]
    in field (query req) ''state'' \<noteq> field (session req) ''oauthState''
       \<and> response (oauth_callback sample_env (sample_runtime NetworkError) req)
           = Send 400 ''Invalid OAuth state or missing code''
       \<and> calls (oauth_callback sample_env (sample_runtime NetworkError) req) = [])"
  using callback_rejects_bad_state
    [of "sample_request [(''code'', JStr ''c0de''), (''state'', JStr ''abc'')] JNull
           [(''oauthState'', JStr ''abd'')]" sample_env "sample_runtime NetworkError"]
  by (simp add: sample_request_def field_def)

section \<open>The gateway\<close>

text \<open>
  Claim C2. A request to any of the three proxy routes whose session has no \<^verbatim>\<open>accessToken\<close>
  is answered 401 with the JSON body of \<open>not_authenticated\<close> (an \<^verbatim>\<open>error\<close> and an
  \<^verbatim>\<open>authUrl\<close> that is \<^verbatim>\<open>BASE_URL\<close> followed by \<^verbatim>\<open>/oauth/login\<close>), and no upstream call is made.
  The gateway looks at \<^verbatim>\<open>accessToken\<close> alone: with a token in the session the handler behind
  it runs, whatever \<^verbatim>\<open>expiresAt\<close> holds.
\<close>

theorem gateway_requires_token:
  "not_authenticated cfg =
      SendJson 401 (JObj [(''error'', JStr ''Not authenticated''),
                          (''authUrl'', JStr (env_str (BASE_URL cfg) @ ''/oauth/login''))])
   \<and> (session req ''accessToken'' = None \<longrightarrow>
      response (route_designs cfg rt req) = not_authenticated cfg \<and> calls (route_designs cfg rt req) = []
    \<and> response (route_design cfg rt req) = not_authenticated cfg \<and> calls (route_design cfg rt req) = []
    \<and> response (route_import cfg rt req) = not_authenticated cfg \<and> calls (route_import cfg rt req) = [])
   \<and> (truthy (field (session req) ''accessToken'') \<longrightarrow>
      requireAccessToken cfg handler (req\<lparr>session := (session req)(''expiresAt'' := e)\<rparr>)
        = handler (req\<lparr>session := (session req)(''expiresAt'' := e)\<rparr>))"
  by (simp add: route_designs_def route_design_def route_import_def requireAccessToken_def field_def
        not_authenticated_def)

theorem gateway_requires_token_witness:
  "session (sample_request [] JNull []) ''accessToken'' = None
   \<and> response (route_designs sample_env (sample_runtime NetworkError) (sample_request [] JNull []))
       = SendJson 401 (JObj [(''error'', JStr ''Not authenticated''),
                             (''authUrl'', JStr ''http://127.0.0.1:3000/oauth/login'')])
   \<and> calls (route_import sample_env (sample_runtime NetworkError) (sample_request [] JNull [])) = []
   \<and> truthy (field (session (sample_request [] JNull [(''accessToken'', JStr ''tok'')])) ''accessToken'')
   \<and> response (requireAccessToken sample_env (get_design (sample_runtime (Responded 200 (Some (JObj [])))))
         ((sample_request [] JNull [(''accessToken'', JStr ''tok'')])
            \<lparr>session := (session (sample_request [] JNull [(''accessToken'', JStr ''tok'')]))
                 (''expiresAt'' := Some (JNum (Fin 0)))\<rparr>))
       = SendJson 200 (JObj [])"
  using gateway_requires_token
      [where req = "sample_request [] JNull []" and cfg = sample_env
         and rt = "sample_runtime NetworkError"]
    gateway_requires_token
      [where req = "sample_request [] JNull [(''accessToken'', JStr ''tok'')]" and cfg = sample_env
         and handler = "get_design (sample_runtime (Responded 200 (Some (JObj []))))"
         and e = "Some (JNum (Fin 0))"]
  by (simp add: sample_request_def sample_env_def sample_runtime_def not_authenticated_def env_str_def
        field_def get_design_def relay_def)

section \<open>The token exchange\<close>

text \<open>
  Claim C3. For a callback whose \<^verbatim>\<open>state\<close> matches the session and whose query has a
  \<^verbatim>\<open>code\<close>, every call made to the provider is a POST to the token endpoint with the Basic
  credentials of \<^verbatim>\<open>client_id:client_secret\<close> and the form fields
  \<^verbatim>\<open>grant_type=authorization_code\<close>, the received \<^verbatim>\<open>code\<close>, the \<^verbatim>\<open>codeVerifier\<close> of the session
  (a stored string is sent as it is) and a \<^verbatim>\<open>redirect_uri\<close> that is what the \<^verbatim>\<open>redirect_uri\<close>
  parameter of every authorize URL of this configuration decodes to. When the code and the
  state are not empty, exactly one such call is made.
\<close>

theorem token_exchange_request:
  assumes "strict_eq (field (query req) ''state'') (field (session req) ''oauthState'')"
      and "query req ''code'' = Some code"
  shows "(\<forall>call \<in> set (calls (oauth_callback cfg rt req)).
            url call = ''https://api.canva.com/rest/v1/oauth/token''
          \<and> http_method call = ''POST''
          \<and> map_of (headers call) ''Authorization''
              = Some (''Basic '' @ base64 (utf8 (env_str (CANVA_CLIENT_ID cfg) @ '':''
                                                  @ env_str (CANVA_CLIENT_SECRET cfg))))
          \<and> form_value call ''grant_type'' = Some ''authorization_code''
          \<and> form_value call ''code'' = Some (js_to_string code)
          \<and> form_value call ''code_verifier''
              = Some (js_to_string (field (session req) ''codeVerifier''))
          \<and> (\<forall>v. session req ''codeVerifier'' = Some (JStr v) \<longrightarrow>
                 form_value call ''code_verifier'' = Some v)
          \<and> form_value call ''redirect_uri'' = Some (env_str (REDIRECT_URI cfg))
          \<and> (\<forall>src req0 loc. response (fst (oauth_login cfg src req0)) = Redirect 302 loc \<longrightarrow>
                 map_option pct_decode (query_param loc ''redirect_uri'')
                   = form_value call ''redirect_uri''))
       \<and> (truthy code \<and> truthy (field (query req) ''state'') \<longrightarrow>
            length (calls (oauth_callback cfg rt req)) = 1)"
  using assms
  by (auto simp: callback_calls token_request_def field_def login_redirect_uri)

theorem token_exchange_request_witness:
  "(let req = sample_request [(''code'', JStr ''c0de''), (''state'', JStr ''abc'')] JNull
                [(''oauthState'', JStr ''abc''), (''codeVerifier'', JStr ''v3rifier'')];
        sent = calls (oauth_callback sample_env (sample_runtime NetworkError) req)
    in strict_eq (field (query req) ''state'') (field (session req) ''oauthState'')
       \<and> query req ''code'' = Some (JStr ''c0de'')
       \<and> length sent = 1
       \<and> map (\<lambda>call. map_of (headers call) ''Authorization'') sent
            = [Some ''Basic T0MtQVoxJng6czNjcmV0'']
       \<and> map (\<lambda>call. form_value call ''code_verifier'') sent = [Some ''v3rifier'']
       \<and> map (\<lambda>call. form_value call ''redirect_uri'') sent
            = [Some ''http://127.0.0.1:3000/oauth/callback''])"
  using token_exchange_request
    [of "sample_request [(''code'', JStr ''c0de''), (''state'', JStr ''abc'')] JNull
           [(''oauthState'', JStr ''abc''), (''codeVerifier'', JStr ''v3rifier'')]"
        "JStr ''c0de''" sample_env "sample_runtime NetworkError"]
  by (simp add: sample_request_def sample_env_def field_def callback_calls token_request_def
        env_str_def base64_def utf8_def b64_std_def)




text \<open>
  Claim C6 as stated (every HTTP error answer of the provider gives 400, distinct from the
  500 of a network failure) does not hold: the body is parsed before the status is looked
  at, so an error answer whose body is not JSON (here a 502) ends in the same 500 as a
  failed connection.
\<close>

theorem callback_error_body_not_json_counterexample:
  "\<not> status_ok 502
   \<and> fetch (sample_runtime (Responded 502 None))
        (token_request sample_env (JStr ''c0de'') (JStr ''v3rifier'')) = Responded 502 None
   \<and> calls (oauth_callback sample_env (sample_runtime (Responded 502 None))
        (sample_request [(''code'', JStr ''c0de''), (''state'', JStr ''abc'')] JNull
           [(''oauthState'', JStr ''abc''), (''codeVerifier'', JStr ''v3rifier'')]))
       = [token_request sample_env (JStr ''c0de'') (JStr ''v3rifier'')]
   \<and> response (oauth_callback sample_env (sample_runtime (Responded 502 None))
        (sample_request [(''code'', JStr ''c0de''), (''state'', JStr ''abc'')] JNull
           [(''oauthState'', JStr ''abc''), (''codeVerifier'', JStr ''v3rifier'')]))
       = Send 500 ''OAuth callback error''
   \<and> response (oauth_callback sample_env (sample_runtime NetworkError)
        (sample_request [(''code'', JStr ''c0de''), (''state'', JStr ''abc'')] JNull
           [(''oauthState'', JStr ''abc''), (''codeVerifier'', JStr ''v3rifier'')]))
       = Send 500 ''OAuth callback error''"
  by (simp add: status_ok_def sample_runtime_def sample_request_def oauth_callback_def field_def)

text \<open>
  Claim C6, amended. For a callback that reaches the token exchange: an answer of the provider
  with a JSON body and a status outside 2xx gives 400 with a fixed text, whatever the body
  says; a failed connection, or an answer whose body is not JSON, gives 500.
\<close>

theorem callback_exchange_failures:
  assumes "calls (oauth_callback cfg rt req) = [call]"
  shows "(\<forall>st json. fetch rt call = Responded st (Some json) \<and> \<not> status_ok st \<longrightarrow>
            response (oauth_callback cfg rt req) = Send 400 ''Failed to exchange code for token'')
       \<and> (\<forall>st. fetch rt call = NetworkError \<or> fetch rt call = Responded st None \<longrightarrow>
            response (oauth_callback cfg rt req) = Send 500 ''OAuth callback error'')"
  using assms
  by (auto simp: oauth_callback_def Let_def split: if_splits fetch_outcome.splits option.splits)

theorem callback_exchange_failures_witness:
  "(let req = sample_request [(''code'', JStr ''c0de''), (''state'', JStr ''abc'')] JNull
                [(''oauthState'', JStr ''abc''), (''codeVerifier'', JStr ''v3rifier'')];
        call = token_request sample_env (JStr ''c0de'') (JStr ''v3rifier'');
        refused = sample_runtime (Responded 400 (Some (JObj [(''error'', JStr ''invalid_grant'')])))
    in calls (oauth_callback sample_env refused req) = [call]
       \<and> fetch refused call = Responded 400 (Some (JObj [(''error'', JStr ''invalid_grant'')]))
       \<and> response (oauth_callback sample_env refused req)
           = Send 400 ''Failed to exchange code for token''
       \<and> calls (oauth_callback sample_env (sample_runtime NetworkError) req) = [call]
       \<and> response (oauth_callback sample_env (sample_runtime NetworkError) req)
           = Send 500 ''OAuth callback error'')"
  using callback_exchange_failures
    [of sample_env "sample_runtime (Responded 400 (Some (JObj [(''error'', JStr ''invalid_grant'')])))"
        "sample_request [(''code'', JStr ''c0de''), (''state'', JStr ''abc'')] JNull
                [(''oauthState'', JStr ''abc''), (''codeVerifier'', JStr ''v3rifier'')]"
        "token_request sample_env (JStr ''c0de'') (JStr ''v3rifier'')"]
    callback_exchange_failures
    [of sample_env "sample_runtime NetworkError"
        "sample_request [(''code'', JStr ''c0de''), (''state'', JStr ''abc'')] JNull
                [(''oauthState'', JStr ''abc''), (''codeVerifier'', JStr ''v3rifier'')]"
        "token_request sample_env (JStr ''c0de'') (JStr ''v3rifier'')"]
  by (simp add: sample_request_def sample_runtime_def oauth_callback_def field_def status_ok_def)

section \<open>The login redirect\<close>

text \<open>
  Claim C4. The \<^verbatim>\<open>code_challenge\<close> parameter of the authorize URL is
  \<open>base64url (sha256 verifier)\<close> for the verifier that the same call stores in the session;
  two logins that store the same verifier send the same challenge.
\<close>

theorem challenge_derived_from_verifier:
  "(\<exists>loc v. response (fst (oauth_login cfg src req)) = Redirect 302 loc
       \<and> session_out (fst (oauth_login cfg src req)) ''codeVerifier'' = Some (JStr v)
       \<and> query_param loc ''code_challenge'' = Some (base64url (sha256 (utf8 v))))
   \<and> (session_out (fst (oauth_login cfg src req)) ''codeVerifier''
         = session_out (fst (oauth_login cfg' src' req')) ''codeVerifier'' \<longrightarrow>
       (\<exists>loc loc'. response (fst (oauth_login cfg src req)) = Redirect 302 loc
          \<and> response (fst (oauth_login cfg' src' req')) = Redirect 302 loc'
          \<and> query_param loc ''code_challenge'' = query_param loc' ''code_challenge''))"
proof -
  obtain loc where loc: "response (fst (oauth_login cfg src req)) = Redirect 302 loc"
    and q: "query_param loc ''code_challenge'' = Some (base64url (sha256 (utf8 (base64url
                        (fst (randomBytes 96 (snd (randomBytes 24 src))))))))"
    using oauth_login_query [of cfg src req] by (auto simp: query_param_def)
  obtain loc' where loc': "response (fst (oauth_login cfg' src' req')) = Redirect 302 loc'"
    and q': "query_param loc' ''code_challenge'' = Some (base64url (sha256 (utf8 (base64url
                        (fst (randomBytes 96 (snd (randomBytes 24 src'))))))))"
    using oauth_login_query [of cfg' src' req'] by (auto simp: query_param_def)
  show ?thesis
    using loc q loc' q' by (simp add: oauth_login_session)
qed

theorem challenge_derived_from_verifier_witness:
  "session_out (fst (oauth_login sample_env sample_entropy (sample_request [] JNull [])))
       ''codeVerifier''
     = session_out (fst (oauth_login (sample_env\<lparr>BASE_URL := None\<rparr>) sample_entropy
         (sample_request [(''x'', JNull)] JNull [(''accessToken'', JStr ''tok'')]))) ''codeVerifier''
   \<and> session_out (fst (oauth_login sample_env sample_entropy (sample_request [] JNull [])))
       ''codeVerifier'' = Some (JStr ''q7K5wMfO1dzj6vH4_wYNFBsiKTA3PkVMU1phaG92fYSLkpmgp661vMPK0djf5u30-wIJEBceJSwzOkFIT1ZdZGtyeYCHjpWco6qxuL_GzdTb4unw9_4FDBMaISgvNj1E'')
   \<and> (\<exists>loc loc'.
         response (fst (oauth_login sample_env sample_entropy (sample_request [] JNull [])))
           = Redirect 302 loc
       \<and> response (fst (oauth_login (sample_env\<lparr>BASE_URL := None\<rparr>) sample_entropy
           (sample_request [(''x'', JNull)] JNull [(''accessToken'', JStr ''tok'')])))
           = Redirect 302 loc'
       \<and> query_param loc ''code_challenge'' = Some (base64url (sha256 (utf8 ''q7K5wMfO1dzj6vH4_wYNFBsiKTA3PkVMU1phaG92fYSLkpmgp661vMPK0djf5u30-wIJEBceJSwzOkFIT1ZdZGtyeYCHjpWco6qxuL_GzdTb4unw9_4FDBMaISgvNj1E'')))
       \<and> query_param loc ''code_challenge'' = query_param loc' ''code_challenge'')"
proof -
  let ?a = "oauth_login sample_env sample_entropy (sample_request [] JNull [])"
  let ?b = "oauth_login (sample_env\<lparr>BASE_URL := None\<rparr>) sample_entropy
              (sample_request [(''x'', JNull)] JNull [(''accessToken'', JStr ''tok'')])"
  have v: "session_out (fst ?a) ''codeVerifier'' = Some (JStr ''q7K5wMfO1dzj6vH4_wYNFBsiKTA3PkVMU1phaG92fYSLkpmgp661vMPK0djf5u30-wIJEBceJSwzOkFIT1ZdZGtyeYCHjpWco6qxuL_GzdTb4unw9_4FDBMaISgvNj1E'')"
    by (simp add: oauth_login_session sample_first_verifier)
  have same: "session_out (fst ?a) ''codeVerifier'' = session_out (fst ?b) ''codeVerifier''"
    by (simp add: oauth_login_session)
  obtain loc loc' where "response (fst ?a) = Redirect 302 loc"
    and "response (fst ?b) = Redirect 302 loc'"
    and "query_param loc ''code_challenge'' = query_param loc' ''code_challenge''"
    using challenge_derived_from_verifier
      [of sample_env sample_entropy "sample_request [] JNull []" "sample_env\<lparr>BASE_URL := None\<rparr>"
          sample_entropy "sample_request [(''x'', JNull)] JNull [(''accessToken'', JStr ''tok'')]"]
      same by blast
  moreover obtain loc2 v2 where "response (fst ?a) = Redirect 302 loc2"
    and "session_out (fst ?a) ''codeVerifier'' = Some (JStr v2)"
    and "query_param loc2 ''code_challenge'' = Some (base64url (sha256 (utf8 v2)))"
    using challenge_derived_from_verifier
      [of sample_env sample_entropy "sample_request [] JNull []" sample_env
          sample_entropy "sample_request [] JNull []"] by blast
  ultimately show ?thesis
    using v same by auto
qed



section \<open>The proxy routes\<close>

text \<open>
  Claim C7 as stated (a request with a \<^verbatim>\<open>fileUrl\<close> present is forwarded) does not hold: a
  \<^verbatim>\<open>fileUrl\<close> that is present and empty is refused and nothing is sent upstream.
\<close>

theorem import_present_but_empty_counterexample:
  "get_prop (body (sample_request [] (JObj [(''fileUrl'', JStr [])]) [(''accessToken'', JStr ''tok'')]))
      ''fileUrl'' = JStr []
   \<and> map_of [(''fileUrl'', JStr [])] ''fileUrl'' \<noteq> None
   \<and> response (import_url (sample_runtime (Responded 200 (Some (JObj []))))
        (sample_request [] (JObj [(''fileUrl'', JStr [])]) [(''accessToken'', JStr ''tok'')]))
       = SendJson 400 (JObj [(''error'', JStr ''fileUrl is required'')])
   \<and> calls (import_url (sample_runtime (Responded 200 (Some (JObj []))))
        (sample_request [] (JObj [(''fileUrl'', JStr [])]) [(''accessToken'', JStr ''tok'')])) = []
   \<and> calls (route_import sample_env (sample_runtime (Responded 200 (Some (JObj []))))
        (sample_request [] (JObj [(''fileUrl'', JStr [])]) [(''accessToken'', JStr ''tok'')])) = []"
  by (simp add: sample_request_def import_url_def route_import_def requireAccessToken_def field_def)

text \<open>
  Claim C7, amended. An import whose body has no \<^verbatim>\<open>fileUrl\<close> is answered 400 and no upstream
  call is made; an import whose \<^verbatim>\<open>fileUrl\<close> is truthy makes exactly one upstream call, a POST
  whose JSON body is \<^verbatim>\<open>{"url": fileUrl}\<close>.
\<close>

theorem import_requires_fileUrl:
  assumes "body req = JObj kvs"
  shows "(map_of kvs ''fileUrl'' = None \<longrightarrow>
            response (import_url rt req) = SendJson 400 (JObj [(''error'', JStr ''fileUrl is required'')])
            \<and> calls (import_url rt req) = [])
       \<and> (\<forall>fileUrl. map_of kvs ''fileUrl'' = Some fileUrl \<and> truthy fileUrl \<longrightarrow>
            (\<exists>call. calls (import_url rt req) = [call]
               \<and> http_method call = ''POST''
               \<and> url call = ''https://api.canva.com/rest/v1/design-imports/url''
               \<and> payload call = JsonText (JObj [(''url'', fileUrl)])))"
  using assms by (auto simp: import_url_def relay_def split: fetch_outcome.splits option.splits)

theorem import_requires_fileUrl_witness:
  "(let rt = sample_runtime (Responded 200 (Some (JObj [(''job'', JStr ''in_progress'')])));
        url0 = JStr ''https://example.com/graphic.png''
    in body (sample_request [] (JObj [(''fileUrl'', url0)]) [(''accessToken'', JStr ''tok'')])
         = JObj [(''fileUrl'', url0)]
       \<and> truthy url0
       \<and> map payload (calls (import_url rt
             (sample_request [] (JObj [(''fileUrl'', url0)]) [(''accessToken'', JStr ''tok'')])))
           = [JsonText (JObj [(''url'', url0)])]
       \<and> response (import_url rt (sample_request [] (JObj [(''other'', JNull)]) []))
           = SendJson 400 (JObj [(''error'', JStr ''fileUrl is required'')])
       \<and> calls (import_url rt (sample_request [] (JObj [(''other'', JNull)]) [])) = [])"
  using import_requires_fileUrl
    [of "sample_request [] (JObj [(''fileUrl'', JStr ''https://example.com/graphic.png'')])
           [(''accessToken'', JStr ''tok'')]"
        "[(''fileUrl'', JStr ''https://example.com/graphic.png'')]"
        "sample_runtime (Responded 200 (Some (JObj [(''job'', JStr ''in_progress'')])))"]
    import_requires_fileUrl
    [of "sample_request [] (JObj [(''other'', JNull)]) []" "[(''other'', JNull)]"
        "sample_runtime (Responded 200 (Some (JObj [(''job'', JStr ''in_progress'')])))"]
  by (auto simp: sample_request_def Let_def)

text \<open>
  Claim C8 as stated (every upstream answer is passed through with its status) does not
  hold: the three handlers parse the body before they copy the status, so an upstream 404
  whose body is not JSON is answered 500.
\<close>

theorem proxy_answer_not_json_counterexample:
  "calls (route_design sample_env (sample_runtime (Responded 404 None))
       (sample_request [] JNull [(''accessToken'', JStr ''tok'')]))
     = [\<lparr>url = ''https://api.canva.com/rest/v1/designs/DAGiMoGkG1s'', http_method = ''GET'',
          headers = [(''Authorization'', ''Bearer tok'')], payload = NoBody\<rparr>]
   \<and> fetch (sample_runtime (Responded 404 None))
        \<lparr>url = ''https://api.canva.com/rest/v1/designs/DAGiMoGkG1s'', http_method = ''GET'',
          headers = [(''Authorization'', ''Bearer tok'')], payload = NoBody\<rparr>
       = Responded 404 None
   \<and> response (route_design sample_env (sample_runtime (Responded 404 None))
        (sample_request [] JNull [(''accessToken'', JStr ''tok'')]))
       = SendJson 500 (JObj [(''error'', JStr ''Error fetching design'')])"
  by (simp add: route_design_def requireAccessToken_def get_design_def relay_def bearer_def
        sample_request_def sample_runtime_def field_def)

text \<open>
  Claim C8, amended. For each of the three proxy operations, alone or behind the gateway:
  when the upstream answers the call with a status and a body that parses as JSON, the proxy
  answers with that status and hands that parsed body to \<^verbatim>\<open>res.json\<close>, for 2xx and for every
  other status; when the body is not JSON, or no answer arrives, the proxy answers 500 with
  an \<^verbatim>\<open>error\<close> text. With a token in the session each route makes its one upstream call (the
  import when its \<^verbatim>\<open>fileUrl\<close> is truthy).
\<close>

theorem proxy_passes_upstream_through:
  assumes "h \<in> {list_designs rt, get_design rt, import_url rt,
                 route_designs cfg rt, route_design cfg rt, route_import cfg rt}"
  shows "(\<forall>call. calls (h req) = [call] \<longrightarrow>
            (\<forall>st json. fetch rt call = Responded st (Some json) \<longrightarrow>
               response (h req) = SendJson st json)
          \<and> (\<forall>st. fetch rt call = Responded st None \<or> fetch rt call = NetworkError \<longrightarrow>
               (\<exists>msg. response (h req) = SendJson 500 (JObj [(''error'', JStr msg)]))))
       \<and> (truthy (field (session req) ''accessToken'') \<longrightarrow>
            map url (calls (route_designs cfg rt req))
              = [''https://api.canva.com/rest/v1/designs''
                 @ (if truthy (field (query req) ''q'')
                    then ''?query='' @ form_encode (js_to_string (field (query req) ''q''))
                    else [])]
          \<and> map url (calls (route_design cfg rt req))
              = [''https://api.canva.com/rest/v1/designs/'' @ param_id req]
          \<and> (\<not> nullish (body req) \<and> truthy (get_prop (body req) ''fileUrl'') \<longrightarrow>
               map url (calls (route_import cfg rt req))
                 = [''https://api.canva.com/rest/v1/design-imports/url'']))"
proof -
  obtain c msg where "h req = relay rt req c msg \<or> calls (h req) = []"
    using handler_shape [OF assms] by blast
  then have one: "\<forall>call. calls (h req) = [call] \<longrightarrow>
            (\<forall>st json. fetch rt call = Responded st (Some json) \<longrightarrow>
               response (h req) = SendJson st json)
          \<and> (\<forall>st. fetch rt call = Responded st None \<or> fetch rt call = NetworkError \<longrightarrow>
               (\<exists>msg. response (h req) = SendJson 500 (JObj [(''error'', JStr msg)])))"
    by (rule relay_answer)
  have two: "truthy (field (session req) ''accessToken'') \<longrightarrow>
            map url (calls (route_designs cfg rt req))
              = [''https://api.canva.com/rest/v1/designs''
                 @ (if truthy (field (query req) ''q'')
                    then ''?query='' @ form_encode (js_to_string (field (query req) ''q''))
                    else [])]
          \<and> map url (calls (route_design cfg rt req))
              = [''https://api.canva.com/rest/v1/designs/'' @ param_id req]
          \<and> (\<not> nullish (body req) \<and> truthy (get_prop (body req) ''fileUrl'') \<longrightarrow>
               map url (calls (route_import cfg rt req))
                 = [''https://api.canva.com/rest/v1/design-imports/url''])"
    by (simp add: route_designs_def route_design_def route_import_def requireAccessToken_def
          list_designs_def get_design_def import_url_def relay_calls Let_def)
  show ?thesis
    by (rule conjI [OF one two])
qed

theorem proxy_passes_upstream_through_witness:
  "(let rt = sample_runtime (Responded 404 (Some (JObj [(''message'', JStr ''Design not found'')])));
        req = sample_request [] JNull [(''accessToken'', JStr ''tok'')]
    in truthy (field (session req) ''accessToken'')
       \<and> map url (calls (route_design sample_env rt req))
           = [''https://api.canva.com/rest/v1/designs/DAGiMoGkG1s'']
       \<and> response (route_design sample_env rt req)
           = SendJson 404 (JObj [(''message'', JStr ''Design not found'')]))"
proof -
  let ?rt = "sample_runtime (Responded 404 (Some (JObj [(''message'', JStr ''Design not found'')])))"
  let ?req = "sample_request [] JNull [(''accessToken'', JStr ''tok'')]"
  let ?call = "\<lparr>url = ''https://api.canva.com/rest/v1/designs/DAGiMoGkG1s'', http_method = ''GET'',
                 headers = [(''Authorization'', ''Bearer tok'')], payload = NoBody\<rparr>"
  have tok: "truthy (field (session ?req) ''accessToken'')"
    by (simp add: sample_request_def field_def)
  have c: "calls (route_design sample_env ?rt ?req) = [?call]"
    by (simp add: route_design_def requireAccessToken_def get_design_def relay_def bearer_def
          sample_request_def sample_runtime_def field_def)
  have f: "fetch ?rt ?call = Responded 404 (Some (JObj [(''message'', JStr ''Design not found'')]))"
    by (simp add: sample_runtime_def)
  have m: "route_design sample_env ?rt \<in> {list_designs ?rt, get_design ?rt, import_url ?rt,
             route_designs sample_env ?rt, route_design sample_env ?rt, route_import sample_env ?rt}"
    by simp
  note t = proxy_passes_upstream_through [OF m, of ?req]
  have "response (route_design sample_env ?rt ?req)
          = SendJson 404 (JObj [(''message'', JStr ''Design not found'')])"
    by (rule t [THEN conjunct1, THEN spec, of ?call, THEN mp, OF c, THEN conjunct1,
                THEN spec, THEN spec, THEN mp, OF f])
  moreover have "map url (calls (route_design sample_env ?rt ?req))
      = [''https://api.canva.com/rest/v1/designs/'' @ param_id ?req]"
    by (rule t [THEN conjunct2, THEN mp, OF tok, THEN conjunct2, THEN conjunct1])
  ultimately show ?thesis
    using tok by (simp add: Let_def sample_request_def)
qed

text \<open>
  Claim C10. An import whose body has \<^verbatim>\<open>fileUrl\<close> with the value \<^verbatim>\<open>""\<close>, \<^verbatim>\<open>null\<close>, \<^verbatim>\<open>false\<close> or
  \<^verbatim>\<open>0\<close> gets the result of the same request without the key: 400 and no upstream call.
\<close>

theorem import_rejects_falsy_fileUrl:
  assumes "body req = JObj kvs"
      and "map_of kvs ''fileUrl'' = Some v"
      and "v \<in> {JStr [], JNull, JBool False, JNum (Fin 0)}"
  shows "import_url rt req
           = import_url rt (req\<lparr>body := JObj (filter (\<lambda>kv. fst kv \<noteq> ''fileUrl'') kvs)\<rparr>)
         \<and> response (import_url rt req) = SendJson 400 (JObj [(''error'', JStr ''fileUrl is required'')])
         \<and> calls (import_url rt req) = []"
  using assms by (auto simp: import_url_def map_of_without)

theorem import_rejects_falsy_fileUrl_witness:
  "(let rt = sample_runtime (Responded 200 (Some (JObj [])));
        req = sample_request [] (JObj [(''fileUrl'', JNum (Fin 0)), (''note'', JStr ''x'')])
                [(''accessToken'', JStr ''tok'')]
    in body req = JObj [(''fileUrl'', JNum (Fin 0)), (''note'', JStr ''x'')]
       \<and> map_of [(''fileUrl'', JNum (Fin 0)), (''note'', JStr ''x'')] ''fileUrl'' = Some (JNum (Fin 0))
       \<and> import_url rt req = import_url rt (req\<lparr>body := JObj [(''note'', JStr ''x'')]\<rparr>)
       \<and> response (import_url rt req) = SendJson 400 (JObj [(''error'', JStr ''fileUrl is required'')])
       \<and> calls (import_url rt req) = [])"
  using import_rejects_falsy_fileUrl
    [of "sample_request [] (JObj [(''fileUrl'', JNum (Fin 0)), (''note'', JStr ''x'')])
                [(''accessToken'', JStr ''tok'')]"
        "[(''fileUrl'', JNum (Fin 0)), (''note'', JStr ''x'')]" "JNum (Fin 0)"
        "sample_runtime (Responded 200 (Some (JObj [])))"]
  by (simp add: sample_request_def Let_def import_url_def)

end
